theory Spec2Isabelle
  imports Main "HOL-Library.Word"
begin

unbundle bit_operations_syntax

section \<open>JavaScript values used by the terminal engine\<close>

text \<open>
  The engine is the class \<open>Terminal\<close> of the source file.  A JavaScript string is a
  sequence of UTF-16 code units; a code unit is a natural number here, and the
  one-character strings the engine compares (\<open>ch >= ' '\<close>, \<open>ch === '\x1b'\<close>) are compared
  by their code unit.  Numbers are mathematical integers: the engine only builds them
  from decimal digits and by adding and subtracting, the model does not round them
  to doubles.
\<close>

type_synonym jschar = nat
type_synonym jsstring = "nat list"

definition str :: "string \<Rightarrow> jsstring" where
  "str cs = map of_char cs"

definition ESC :: jschar where "ESC = 27"
definition BEL :: jschar where "BEL = 7"
definition SPACE :: jschar where "SPACE = 32"

text \<open>\<open>'' + n\<close> for an integer \<open>n\<close>: its decimal digits.\<close>

function digits :: "nat \<Rightarrow> jsstring" where
  "digits n = (if n < 10 then [48 + n] else digits (n div 10) @ [48 + n mod 10])"
  by pat_completeness auto
termination
  by (relation "measure id") auto

declare digits.simps [simp del]

definition num_str :: "int \<Rightarrow> jsstring" where
  "num_str i = (if i < 0 then 45 # digits (nat (- i)) else digits (nat i))"

text \<open>
  Arrays.  \<open>xs[i]\<close> outside the array is \<open>undefined\<close> (\<open>None\<close>); \<open>splice\<close> and
  \<open>slice\<close> clamp their start index as the language defines.
\<close>

definition js_get :: "'a list \<Rightarrow> int \<Rightarrow> 'a option" where
  "js_get xs i = (if 0 \<le> i \<and> i < int (length xs) then Some (xs ! nat i) else None)"

definition js_splice :: "'a list \<Rightarrow> int \<Rightarrow> int \<Rightarrow> 'a list \<Rightarrow> 'a list" where
  "js_splice xs start deleteCount items =
     (let n = int (length xs);
          s = (if start < 0 then max (n + start) 0 else min start n);
          d = min (max deleteCount 0) (n - s)
      in take (nat s) xs @ items @ drop (nat (s + d)) xs)"

definition js_slice_from :: "'a list \<Rightarrow> int \<Rightarrow> 'a list" where
  "js_slice_from xs start =
     (let n = int (length xs);
          s = (if start < 0 then max (n + start) 0 else min start n)
      in drop (nat s) xs)"

text \<open>
  A cell is \<open>[attr, ch]\<close>.  A row is an array of cells; an assignment past its end
  leaves holes, which read as \<open>undefined\<close>: a hole is \<open>None\<close>.  An assignment at a
  negative index sets a property and leaves the array's elements as they are.
\<close>

type_synonym LineCell = "int \<times> jschar"
type_synonym row = "LineCell option list"

definition row_get :: "row \<Rightarrow> int \<Rightarrow> LineCell option" where
  "row_get line i = (case js_get line i of Some c \<Rightarrow> c | None \<Rightarrow> None)"

definition row_set :: "row \<Rightarrow> int \<Rightarrow> LineCell \<Rightarrow> row" where
  "row_set line i v =
     (if i < 0 then line
      else if i < int (length line) then line[nat i := Some v]
      else line @ replicate (nat i - length line) None @ [Some v])"

section \<open>The engine's state\<close>

datatype pstate =
    STATE_NORMAL | STATE_ESCAPE | STATE_CSI | STATE_OSC | STATE_CHARSET | STATE_DCS
  | STATE_IGNORE | STATE_APPLICATION_START | STATE_APPLICATION_END | STATE_DEC_HASH

definition MAX_PROCESS_WRITE_SIZE :: int where "MAX_PROCESS_WRITE_SIZE = 4096"
definition REFRESH_START_NULL :: int where "REFRESH_START_NULL = 100000000"
definition REFRESH_END_NULL :: int where "REFRESH_END_NULL = - 100000000"

text \<open>
  \<open>Terminal.charsets\<close>: the only table that is not \<open>null\<close> is \<open>SCLD\<close>, so a character
  set is \<open>Some SCLD\<close> or \<open>None\<close> (\<open>null\<close>, also \<open>undefined\<close>: the engine only tests it
  for truth).
\<close>

datatype CharSet = SCLD

definition SCLD_table :: "(jschar \<times> jschar) list" where
  "SCLD_table =
   [(96, 0x25c6), (97, 0x2592), (98, 0x0009), (99, 0x000c), (100, 0x000d), (101, 0x000a),
    (102, 0x00b0), (103, 0x00b1), (104, 0x2424), (105, 0x000b), (106, 0x2518),
    (107, 0x2510), (108, 0x250c), (109, 0x2514), (110, 0x253c), (111, 0x23ba),
    (112, 0x23bb), (113, 0x2500), (114, 0x23bc), (115, 0x23bd), (116, 0x251c),
    (117, 0x2524), (118, 0x2534), (119, 0x252c), (120, 0x2502), (121, 0x2264),
    (122, 0x2265), (123, 0x03c0), (124, 0x2260), (125, 0x00a3), (126, 0x00b7)]"

fun charset_lookup :: "CharSet \<Rightarrow> jschar \<Rightarrow> jschar option" where
  "charset_lookup SCLD c = map_of SCLD_table c"

text \<open>A parameter of an escape sequence is a number or a string.\<close>

datatype param = Num int | Str jsstring

text \<open>What the engine hands to its subscribers through \<open>emit\<close>.\<close>

datatype event =
    Bell | Title jsstring | Data jsstring
  | ApplicationModeStart "param list" | ApplicationModeData jsstring | ApplicationModeEnd

text \<open>
  The exceptions of the modelled code: \<open>TypeError\<close> when a row that is \<open>undefined\<close> is
  used; \<open>OutsideModel\<close> where the source computes a value the model has no
  representation for (\<open>NaN\<close> as a cursor coordinate, arithmetic on a string parameter).
\<close>

datatype error = TypeError | OutsideModel

record SavedState =
  saved_lines :: "row list"
  saved_cols :: int
  saved_rows :: int
  saved_ybase :: int
  saved_ydisp :: int
  saved_x :: int
  saved_y :: int
  saved_scrollTop :: int
  saved_scrollBottom :: int
  saved_tabs :: "int set"

text \<open>
  The fields of \<open>Terminal\<close> that the parser and the screen operations read or write.
  The fields of the renderer (DOM elements, timers, blink state, key handling) are left out;
  \<open>emitted\<close> is the log of the events passed to \<open>emit\<close>, oldest first.
\<close>

record Terminal =
  cols :: int
  rows :: int
  state :: pstate
  refreshStart :: int
  refreshEnd :: int
  ybase :: int
  ydisp :: int
  x :: int
  y :: int
  savedX :: int
  savedY :: int
  oldy :: int
  cursorState :: bool
  cursorHidden :: bool
  queue :: jsstring
  scrollTop :: int
  scrollBottom :: int
  applicationKeypad :: bool
  applicationCursor :: bool
  originMode :: bool
  insertMode :: bool
  wraparoundMode :: bool
  normal :: "SavedState option"
  charset :: "CharSet option"
  gcharset :: "int option"
  glevel :: int
  charsets :: "int \<Rightarrow> CharSet option"
  defAttr :: int
  curAttr :: int
  params :: "param list"
  currentParam :: param
  prefix :: jsstring
  postfix :: jsstring
  lines :: "row list"
  convertEol :: bool
  termName :: jsstring
  scrollback :: int
  physicalScroll :: bool
  applicationModeCookie :: "jsstring option"
  writeBuffers :: "jsstring list"
  scrollbackBuffer :: "row option list"
  tabs :: "int set"
  sendFocus :: bool
  utfMouse :: bool
  urxvtMouse :: bool
  sgrMouse :: bool
  vt200Mouse :: bool
  normalMouse :: bool
  x10Mouse :: bool
  mouseEvents :: bool
  savedCols :: "int option"
  title :: jsstring
  emitted :: "event list"

section \<open>Attributes and colours\<close>

text \<open>
  The bitwise operators of JavaScript work on the 32-bit two's complement image of
  their operands and give a signed 32-bit result.
\<close>

definition to_int32 :: "int \<Rightarrow> 32 word" where
  "to_int32 i = word_of_int i"

definition js_and :: "int \<Rightarrow> int \<Rightarrow> int" where
  "js_and a b = sint (to_int32 a AND to_int32 b)"

definition js_or :: "int \<Rightarrow> int \<Rightarrow> int" where
  "js_or a b = sint (to_int32 a OR to_int32 b)"

definition js_not :: "int \<Rightarrow> int" where
  "js_not a = sint (NOT (to_int32 a))"

definition js_shl :: "int \<Rightarrow> nat \<Rightarrow> int" where
  "js_shl a n = sint (push_bit (n mod 32) (to_int32 a))"

definition js_sar :: "int \<Rightarrow> nat \<Rightarrow> int" where
  "js_sar a n = sint (signed_drop_bit (n mod 32) (to_int32 a))"

text \<open>\<open>(0 << 18) | (257 << 9) | (256 << 0)\<close>\<close>

definition default_attr :: int where
  "default_attr = js_or (js_or (js_shl 0 18) (js_shl 257 9)) (js_shl 256 0)"

text \<open>\<open>eraseAttr\<close>: \<open>(this.defAttr & ~0x1ff) | (this.curAttr & 0x1ff)\<close>\<close>

definition eraseAttr :: "Terminal \<Rightarrow> int" where
  "eraseAttr s = js_or (js_and (defAttr s) (js_not 0x1ff)) (js_and (curAttr s) 0x1ff)"

text \<open>
  \<open>Terminal.vcolors\<close>: the red, green and blue parts of \<open>Terminal.colors[0..255]\<close>, that
  is the sixteen Tango colours, the 6x6x6 cube and the 24 greys.
\<close>

definition tangoColors :: "(int \<times> int \<times> int) list" where
  "tangoColors =
   [(0x2e, 0x34, 0x36), (0xcc, 0x00, 0x00), (0x4e, 0x9a, 0x06), (0xc4, 0xa0, 0x00),
    (0x34, 0x65, 0xa4), (0x75, 0x50, 0x7b), (0x06, 0x98, 0x9a), (0xd3, 0xd7, 0xcf),
    (0x55, 0x57, 0x53), (0xef, 0x29, 0x29), (0x8a, 0xe2, 0x34), (0xfc, 0xe9, 0x4f),
    (0x72, 0x9f, 0xcf), (0xad, 0x7f, 0xa8), (0x34, 0xe2, 0xe2), (0xee, 0xee, 0xec)]"

definition cube_steps :: "int list" where
  "cube_steps = [0x00, 0x5f, 0x87, 0xaf, 0xd7, 0xff]"

definition cube_color :: "nat \<Rightarrow> int \<times> int \<times> int" where
  "cube_color i =
     (cube_steps ! ((i div 36) mod 6), cube_steps ! ((i div 6) mod 6), cube_steps ! (i mod 6))"

definition grey_color :: "nat \<Rightarrow> int \<times> int \<times> int" where
  "grey_color i = (let v = 8 + int i * 10 in (v, v, v))"

definition vcolors :: "(int \<times> int \<times> int) list" where
  "vcolors = tangoColors @ map cube_color [0..<216] @ map grey_color [0..<24]"

definition matchColorDistance :: "int \<Rightarrow> int \<Rightarrow> int \<Rightarrow> int \<Rightarrow> int \<Rightarrow> int \<Rightarrow> int" where
  "matchColorDistance r1 g1 b1 r2 g2 b2 =
     (30 * (r1 - r2))\<^sup>2 + (59 * (g1 - g2))\<^sup>2 + (11 * (b1 - b2))\<^sup>2"

text \<open>
  The loop of \<open>matchColor\<close> over \<open>Terminal.vcolors\<close> from index \<open>i\<close>; \<open>ldiff\<close> is
  \<open>None\<close> for \<open>Infinity\<close>.  The cache of the source only remembers results.
\<close>

fun matchColor_loop ::
  "(int \<times> int \<times> int) list \<Rightarrow> int \<Rightarrow> int option \<Rightarrow> int \<Rightarrow> int \<Rightarrow> int \<Rightarrow> int \<Rightarrow> int" where
  "matchColor_loop [] i ldiff li r1 g1 b1 = li"
| "matchColor_loop ((r2, g2, b2) # cs) i ldiff li r1 g1 b1 =
     (let diff = matchColorDistance r1 g1 b1 r2 g2 b2 in
      if diff = 0 then i
      else if (case ldiff of None \<Rightarrow> True | Some l \<Rightarrow> diff < l)
           then matchColor_loop cs (i + 1) (Some diff) i r1 g1 b1
           else matchColor_loop cs (i + 1) ldiff li r1 g1 b1)"

definition matchColor :: "int \<Rightarrow> int \<Rightarrow> int \<Rightarrow> int" where
  "matchColor r1 g1 b1 = matchColor_loop vcolors 0 None (- 1) r1 g1 b1"

text \<open>\<open>params[i] & 0xff\<close>, where a missing parameter is \<open>undefined\<close> and gives 0.\<close>

definition param_and_ff :: "int list \<Rightarrow> nat \<Rightarrow> int" where
  "param_and_ff ps i = (case js_get ps (int i) of None \<Rightarrow> 0 | Some p \<Rightarrow> js_and p 0xff)"

text \<open>
  The loop of \<open>charAttributes\<close> over \<open>params\<close> from index \<open>i\<close>, on the triple
  \<open>(flags, fg, bg)\<close>; \<open>d\<close> is \<open>this.defAttr\<close>.  The branch \<open>p === 100\<close> comes after
  the test \<open>p >= 100 && p <= 107\<close>, as in the source.
\<close>

function charAttributes_loop ::
  "int list \<Rightarrow> int \<Rightarrow> nat \<Rightarrow> int \<times> int \<times> int \<Rightarrow> int \<times> int \<times> int" where
  "charAttributes_loop ps d i (flags, fg, bg) =
     (if i < length ps then
        (let p = ps ! i in
         if p \<ge> 30 \<and> p \<le> 37 then charAttributes_loop ps d (i + 1) (flags, p - 30, bg)
         else if p \<ge> 40 \<and> p \<le> 47 then charAttributes_loop ps d (i + 1) (flags, fg, p - 40)
         else if p \<ge> 90 \<and> p \<le> 97 then charAttributes_loop ps d (i + 1) (flags, p + 8 - 90, bg)
         else if p \<ge> 100 \<and> p \<le> 107 then
           charAttributes_loop ps d (i + 1) (flags, fg, p + 8 - 100)
         else if p = 0 then
           charAttributes_loop ps d (i + 1)
             (js_sar d 18, js_and (js_sar d 9) 0x1ff, js_and d 0x1ff)
         else if p = 1 then charAttributes_loop ps d (i + 1) (js_or flags 1, fg, bg)
         else if p = 4 then charAttributes_loop ps d (i + 1) (js_or flags 2, fg, bg)
         else if p = 5 then charAttributes_loop ps d (i + 1) (js_or flags 4, fg, bg)
         else if p = 7 then charAttributes_loop ps d (i + 1) (js_or flags 8, fg, bg)
         else if p = 8 then charAttributes_loop ps d (i + 1) (js_or flags 16, fg, bg)
         else if p = 22 then
           charAttributes_loop ps d (i + 1) (js_and flags (js_not 1), fg, bg)
         else if p = 24 then
           charAttributes_loop ps d (i + 1) (js_and flags (js_not 2), fg, bg)
         else if p = 25 then
           charAttributes_loop ps d (i + 1) (js_and flags (js_not 4), fg, bg)
         else if p = 27 then
           charAttributes_loop ps d (i + 1) (js_and flags (js_not 8), fg, bg)
         else if p = 28 then
           charAttributes_loop ps d (i + 1) (js_and flags (js_not 16), fg, bg)
         else if p = 39 then
           charAttributes_loop ps d (i + 1) (flags, js_and (js_sar d 9) 0x1ff, bg)
         else if p = 49 then
           charAttributes_loop ps d (i + 1) (flags, fg, js_and d 0x1ff)
         else if p = 38 then
           (if js_get ps (int i + 1) = Some 2 then
              (let m = matchColor (param_and_ff ps (i + 2)) (param_and_ff ps (i + 3))
                         (param_and_ff ps (i + 4))
               in charAttributes_loop ps d (i + 5)
                    (flags, if m = - 1 then 0x1ff else m, bg))
            else if js_get ps (int i + 1) = Some 5 then
              charAttributes_loop ps d (i + 3) (flags, param_and_ff ps (i + 2), bg)
            else charAttributes_loop ps d (i + 1) (flags, fg, bg))
         else if p = 48 then
           (if js_get ps (int i + 1) = Some 2 then
              (let m = matchColor (param_and_ff ps (i + 2)) (param_and_ff ps (i + 3))
                         (param_and_ff ps (i + 4))
               in charAttributes_loop ps d (i + 5)
                    (flags, fg, if m = - 1 then 0x1ff else m))
            else if js_get ps (int i + 1) = Some 5 then
              charAttributes_loop ps d (i + 3) (flags, fg, param_and_ff ps (i + 2))
            else charAttributes_loop ps d (i + 1) (flags, fg, bg))
         else if p = 100 then
           charAttributes_loop ps d (i + 1)
             (flags, js_and (js_sar d 9) 0x1ff, js_and d 0x1ff)
         else charAttributes_loop ps d (i + 1) (flags, fg, bg))
      else (flags, fg, bg))"
  by pat_completeness auto
termination
  by (relation "measure (\<lambda>(ps, d, i, a). length ps - i)") auto

declare charAttributes_loop.simps [simp del]

text \<open>\<open>charAttributes(params)\<close>, CSI Pm m.\<close>

definition charAttributes :: "Terminal \<Rightarrow> int list \<Rightarrow> Terminal" where
  "charAttributes s ps =
     (if length ps = 1 \<and> ps ! 0 = 0 then s\<lparr>curAttr := defAttr s\<rparr>
      else
        (case charAttributes_loop ps (defAttr s) 0
                (js_sar (curAttr s) 18, js_and (js_sar (curAttr s) 9) 0x1ff,
                 js_and (curAttr s) 0x1ff) of
           (flags, fg, bg) \<Rightarrow>
             s\<lparr>curAttr := js_or (js_or (js_shl flags 18) (js_shl fg 9)) bg\<rparr>))"

text \<open>
  The index of the next turn of the loop of \<open>charAttributes\<close> after the turn at index
  \<open>i\<close>: the branches \<open>p === 38\<close> and \<open>p === 48\<close> add 4 to \<open>i\<close> when \<open>params[i + 1] === 2\<close>
  and 2 when \<open>params[i + 1] === 5\<close>, before the \<open>i++\<close> of the loop; every other branch leaves
  \<open>i\<close> to the \<open>i++\<close>.
\<close>

definition sgr_next :: "int list \<Rightarrow> nat \<Rightarrow> nat" where
  "sgr_next ps i =
     (if ps ! i = 38 \<or> ps ! i = 48 then
        (if js_get ps (int i + 1) = Some 2 then i + 5
         else if js_get ps (int i + 1) = Some 5 then i + 3
         else i + 1)
      else i + 1)"

text \<open>
  \<open>sgr_reaches ps i n\<close>: the loop of \<open>charAttributes\<close> over \<open>ps\<close>, at index \<open>i\<close>, comes to a
  turn at index \<open>n\<close>, that is, \<open>ps[n]\<close> is read as a parameter of its own and not as an
  operand of \<open>38;5;n\<close>, \<open>38;2;r;g;b\<close>, \<open>48;5;n\<close> or \<open>48;2;r;g;b\<close>.
\<close>

function sgr_reaches :: "int list \<Rightarrow> nat \<Rightarrow> nat \<Rightarrow> bool" where
  "sgr_reaches ps i n =
     (if i = n then True
      else if n < i then False
      else sgr_reaches ps (sgr_next ps i) n)"
  by pat_completeness auto
termination
  by (relation "measure (\<lambda>(ps, i, n). n - i)") (auto simp: sgr_next_def)

declare sgr_reaches.simps [simp del]

section \<open>Rows, tab stops and the refresh range\<close>

text \<open>An exception leaves the function that raised it and every caller.\<close>

definition and_then :: "error + 'a \<Rightarrow> ('a \<Rightarrow> error + 'b) \<Rightarrow> error + 'b" where
  "and_then m f = (case m of Inl e \<Rightarrow> Inl e | Inr v \<Rightarrow> f v)"

text \<open>\<open>j = n; while (j--) body(j)\<close> for \<open>n \<ge> 0\<close>, and \<open>while (param--) body()\<close>.\<close>

fun count_down ::
  "nat \<Rightarrow> (int \<Rightarrow> Terminal \<Rightarrow> error + Terminal) \<Rightarrow> Terminal \<Rightarrow> error + Terminal" where
  "count_down 0 f s = Inr s"
| "count_down (Suc n) f s = and_then (f (int n) s) (count_down n f)"

fun times_do :: "nat \<Rightarrow> (Terminal \<Rightarrow> Terminal) \<Rightarrow> Terminal \<Rightarrow> Terminal" where
  "times_do 0 f s = s"
| "times_do (Suc n) f s = times_do n f (f s)"

text \<open>\<open>blankLine(cur)\<close>: \<open>cols\<close> cells \<open>[attr, ' ']\<close>.\<close>

definition blankLine :: "Terminal \<Rightarrow> bool \<Rightarrow> row" where
  "blankLine s cur =
     (let attr = (if cur then eraseAttr s else defAttr s)
      in replicate (nat (cols s)) (Some (attr, SPACE)))"

text \<open>
  \<open>_getRow(row)\<close> pushes blank lines while \<open>row >= this.lines.length\<close> and returns
  \<open>this.lines[row]\<close>.  \<open>getRow\<close> is the state after the pushes; the row returned is
  \<open>js_get (lines (getRow s r)) r\<close>, which is \<open>undefined\<close> for a negative \<open>r\<close>.
\<close>

definition getRow :: "Terminal \<Rightarrow> int \<Rightarrow> Terminal" where
  "getRow s r =
     s\<lparr>lines := lines s @ replicate (nat (r + 1 - int (length (lines s)))) (blankLine s False)\<rparr>"

text \<open>
  A statement that changes the row returned by \<open>_getRow(r)\<close>: a \<open>TypeError\<close> when that row
  is \<open>undefined\<close>.
\<close>

definition change_row :: "Terminal \<Rightarrow> int \<Rightarrow> (row \<Rightarrow> row) \<Rightarrow> error + Terminal" where
  "change_row s r f =
     (let s1 = getRow s r in
      case js_get (lines s1) r of
        None \<Rightarrow> Inl TypeError
      | Some line \<Rightarrow> Inr (s1\<lparr>lines := (lines s1)[nat r := f line]\<rparr>))"

definition updateRange :: "Terminal \<Rightarrow> int \<Rightarrow> Terminal" where
  "updateRange s v =
     s\<lparr>refreshStart := (if v < refreshStart s then v else refreshStart s),
       refreshEnd := (if v > refreshEnd s then v else refreshEnd s)\<rparr>"

definition maxRange :: "Terminal \<Rightarrow> Terminal" where
  "maxRange s = s\<lparr>refreshStart := 0, refreshEnd := rows s - 1\<rparr>"

text \<open>\<open>while (!this.tabs[--x] && x > 0);\<close> and \<open>while (!this.tabs[++x] && x < this.cols);\<close>\<close>

function prevStop_loop :: "int set \<Rightarrow> int \<Rightarrow> int" where
  "prevStop_loop t i = (let j = i - 1 in if j \<notin> t \<and> j > 0 then prevStop_loop t j else j)"
  by pat_completeness auto
termination
  by (relation "measure (\<lambda>(t, i). nat i)") auto

declare prevStop_loop.simps [simp del]

function nextStop_loop :: "int set \<Rightarrow> int \<Rightarrow> int \<Rightarrow> int" where
  "nextStop_loop t c i = (let j = i + 1 in if j \<notin> t \<and> j < c then nextStop_loop t c j else j)"
  by pat_completeness auto
termination
  by (relation "measure (\<lambda>(t, c, i). nat (c - i))") auto

declare nextStop_loop.simps [simp del]

definition prevStop :: "Terminal \<Rightarrow> int \<Rightarrow> int" where
  "prevStop s i =
     (let j = prevStop_loop (tabs s) i
      in if j \<ge> cols s then cols s - 1 else if j < 0 then 0 else j)"

definition nextStop :: "Terminal \<Rightarrow> int \<Rightarrow> int" where
  "nextStop s i =
     (let j = nextStop_loop (tabs s) (cols s) i
      in if j \<ge> cols s then cols s - 1 else if j < 0 then 0 else j)"

text \<open>\<open>for (; i < this.cols; i += 8) this.tabs[i] = true;\<close>\<close>

function setupStops_loop :: "int \<Rightarrow> int \<Rightarrow> int set \<Rightarrow> int set" where
  "setupStops_loop i c t = (if i < c then setupStops_loop (i + 8) c (insert i t) else t)"
  by pat_completeness auto
termination
  by (relation "measure (\<lambda>(i, c, t). nat (c - i))") auto

declare setupStops_loop.simps [simp del]

definition setupStops :: "Terminal \<Rightarrow> int option \<Rightarrow> Terminal" where
  "setupStops s io =
     (case io of
        Some i \<Rightarrow>
          (let i1 = (if i \<notin> tabs s then prevStop s i else i)
           in s\<lparr>tabs := setupStops_loop i1 (cols s) (tabs s)\<rparr>)
      | None \<Rightarrow> s\<lparr>tabs := setupStops_loop 0 (cols s) {}\<rparr>)"

text \<open>
  \<open>refresh(start, end)\<close> renders the rows into the DOM.  The renderer is not modelled, nor
  are exceptions raised while rendering; what is kept is the effect of \<open>refresh\<close> on the
  buffer, where \<open>_getRow(y + this.ydisp)\<close> creates the rows that are missing.
\<close>

function refresh_loop :: "Terminal \<Rightarrow> int \<Rightarrow> int \<Rightarrow> Terminal" where
  "refresh_loop s v e = (if v \<le> e then refresh_loop (getRow s (v + ydisp s)) (v + 1) e else s)"
  by pat_completeness auto
termination
  by (relation "measure (\<lambda>(s, v, e). nat (e + 1 - v))") auto

declare refresh_loop.simps [simp del]

definition refresh :: "Terminal \<Rightarrow> int \<Rightarrow> int \<Rightarrow> Terminal" where
  "refresh s start e =
     (let e1 = (if \<not> physicalScroll s \<and> e \<ge> int (length (lines s))
                then int (length (lines s)) - 1 else e)
      in refresh_loop s start e1)"

definition showCursor :: "Terminal \<Rightarrow> Terminal" where
  "showCursor s =
     (if \<not> cursorState s then (let s1 = s\<lparr>cursorState := True\<rparr> in refresh s1 (y s1) (y s1))
      else s)"

text \<open>
  \<open>send(data)\<close> appends to \<open>queue\<close>; a timer set when the queue was empty later passes the
  whole queue to \<open>handler\<close>, which emits it as the event \<open>data\<close>, and empties it.
\<close>

definition send :: "Terminal \<Rightarrow> jsstring \<Rightarrow> Terminal" where
  "send s d = s\<lparr>queue := queue s @ d\<rparr>"

definition send_timer :: "Terminal \<Rightarrow> Terminal" where
  "send_timer s = s\<lparr>emitted := emitted s @ [Data (queue s)], queue := []\<rparr>"

definition emit :: "Terminal \<Rightarrow> event \<Rightarrow> Terminal" where
  "emit s e = s\<lparr>emitted := emitted s @ [e]\<rparr>"

text \<open>\<open>is(term)\<close>: \<open>(name + '').indexOf(term) === 0\<close>.\<close>

definition is_term :: "Terminal \<Rightarrow> jsstring \<Rightarrow> bool" where
  "is_term s t = (take (length t) (termName s) = t)"

definition setgLevel :: "Terminal \<Rightarrow> int \<Rightarrow> Terminal" where
  "setgLevel s g = s\<lparr>glevel := g, charset := charsets s g\<rparr>"

definition setgCharset :: "Terminal \<Rightarrow> int \<Rightarrow> CharSet option \<Rightarrow> Terminal" where
  "setgCharset s g cs =
     (let s1 = s\<lparr>charsets := (charsets s)(g := cs)\<rparr>
      in if glevel s1 = g then s1\<lparr>charset := cs\<rparr> else s1)"

section \<open>Construction, reset and resize\<close>

text \<open>\<open>for (let i = 0; i < this.rows; i++) this.lines.push(this.blankLine());\<close>\<close>

definition resetVariables :: "Terminal \<Rightarrow> Terminal" where
  "resetVariables s =
     (let s1 = s\<lparr>ybase := 0, ydisp := 0, x := 0, y := 0, oldy := 0,
                 cursorState := False, cursorHidden := False, queue := [],
                 scrollTop := 0, scrollBottom := rows s - 1,
                 applicationKeypad := False, applicationCursor := False,
                 originMode := False, insertMode := False, wraparoundMode := False,
                 normal := None, charset := None, gcharset := None, glevel := 0,
                 charsets := (\<lambda>g. None),
                 defAttr := default_attr, curAttr := default_attr,
                 params := [], currentParam := Num 0, prefix := [], postfix := [],
                 lines := []\<rparr>;
          s2 = (if \<not> physicalScroll s1
                then s1\<lparr>lines := replicate (nat (rows s1)) (blankLine s1 False)\<rparr> else s1)
      in setupStops s2 None)"

text \<open>The options of the constructor that the engine reads, with their defaults.\<close>

record Options =
  opt_convertEol :: bool
  opt_termName :: jsstring
  opt_scrollback :: int
  opt_physicalScroll :: bool
  opt_applicationModeCookie :: "jsstring option"

definition default_options :: Options where
  "default_options =
     \<lparr>opt_convertEol = False, opt_termName = str ''xterm'', opt_scrollback = 1000,
      opt_physicalScroll = False, opt_applicationModeCookie = None\<rparr>"

text \<open>
  The constructor: the field initialisers of the class (80 columns, 24 rows), the
  options, then \<open>_resetVariables()\<close>.
\<close>

definition new_Terminal :: "Options \<Rightarrow> Terminal" where
  "new_Terminal opts =
     resetVariables
       \<lparr>cols = 80, rows = 24, state = STATE_NORMAL,
        refreshStart = REFRESH_START_NULL, refreshEnd = REFRESH_END_NULL,
        ybase = 0, ydisp = 0, x = 0, y = 0, savedX = 0, savedY = 0, oldy = 0,
        cursorState = False, cursorHidden = False, queue = [],
        scrollTop = 0, scrollBottom = 23,
        applicationKeypad = False, applicationCursor = False, originMode = False,
        insertMode = False, wraparoundMode = False, normal = None,
        charset = None, gcharset = None, glevel = 0, charsets = (\<lambda>g. None),
        defAttr = default_attr, curAttr = 0,
        params = [], currentParam = Num 0, prefix = [], postfix = [],
        lines = [],
        convertEol = opt_convertEol opts, termName = opt_termName opts,
        scrollback = opt_scrollback opts, physicalScroll = opt_physicalScroll opts,
        applicationModeCookie = opt_applicationModeCookie opts,
        writeBuffers = [], scrollbackBuffer = [], tabs = {},
        sendFocus = False, utfMouse = False, urxvtMouse = False, sgrMouse = False,
        vt200Mouse = False, normalMouse = False, x10Mouse = False, mouseEvents = False,
        savedCols = None, title = [], emitted = []\<rparr>"

text \<open>\<open>reset()\<close>, ESC c.\<close>

definition reset :: "Terminal \<Rightarrow> Terminal" where
  "reset s = (let s1 = resetVariables s in refresh s1 0 (rows s1 - 1))"

text \<open>
  \<open>resize(newcols, newrows)\<close> without its DOM children, in the three parts the source
  marks: \<open>// resize cols\<close> (with \<open>this.setupStops(this.cols); this.cols = newcols;\<close>),
  \<open>// resize rows\<close> and \<open>// make sure the cursor stays on screen\<close>.  The loop that pops
  lines while \<open>this.lines.length > newrows + this.ybase\<close> does not end when that bound is
  negative; the model stops there with \<open>OutsideModel\<close>.
\<close>

definition resize_line :: "int \<Rightarrow> int \<Rightarrow> row \<Rightarrow> row" where
  "resize_line attr newcols line =
     line @ replicate (nat newcols - length line) (Some (attr, SPACE))"

definition resize_cols :: "Terminal \<Rightarrow> int \<Rightarrow> Terminal" where
  "resize_cols s newcols =
     (let s1 = (if cols s < newcols
                then s\<lparr>lines := map (resize_line (defAttr s) newcols) (lines s)\<rparr>
                else if cols s > newcols
                then s\<lparr>lines := map (take (nat newcols)) (lines s)\<rparr>
                else s)
      in (setupStops s1 (Some (cols s1)))\<lparr>cols := newcols\<rparr>)"

fun resize_add_rows :: "nat \<Rightarrow> int \<Rightarrow> Terminal \<Rightarrow> Terminal" where
  "resize_add_rows 0 newrows s = s"
| "resize_add_rows (Suc n) newrows s =
     resize_add_rows n newrows
       (if int (length (lines s)) < newrows + ybase s
        then s\<lparr>lines := lines s @ [blankLine s False]\<rparr> else s)"

definition resize_rows :: "Terminal \<Rightarrow> int \<Rightarrow> Terminal" where
  "resize_rows s newrows =
     (if rows s < newrows
      then (if \<not> physicalScroll s
            then resize_add_rows (nat (newrows - rows s)) newrows s else s)
      else if rows s > newrows
      then s\<lparr>lines := take (nat (newrows + ybase s)) (lines s)\<rparr>
      else s)"

definition resize_cursor :: "Terminal \<Rightarrow> int \<Rightarrow> int \<Rightarrow> Terminal" where
  "resize_cursor s newcols newrows =
     (let s5 = (if y s \<ge> newrows then s\<lparr>y := newrows - 1\<rparr> else s)
      in if x s5 \<ge> newcols then s5\<lparr>x := newcols - 1\<rparr> else s5)"

definition resize :: "Terminal \<Rightarrow> int \<Rightarrow> int \<Rightarrow> error + Terminal" where
  "resize s newcols0 newrows0 =
     (let newcols = max newcols0 1;
          newrows = max newrows0 1;
          s2 = resize_cols s newcols
      in if rows s2 > newrows \<and> newrows + ybase s2 < 0 then Inl OutsideModel
         else
           (let s4 = (resize_rows s2 newrows)\<lparr>rows := newrows\<rparr>;
                s6 = resize_cursor s4 newcols newrows;
                s7 = s6\<lparr>scrollTop := 0, scrollBottom := newrows - 1\<rparr>;
                s8 = refresh s7 0
                       (if physicalScroll s7 then int (length (lines s7)) - 1
                        else rows s7 - 1)
            in Inr (s8\<lparr>normal := None\<rparr>)))"

section \<open>Scrolling and erasing\<close>

text \<open>
  \<open>scroll()\<close>, in the parts of the source: the step to the next line of the scrollback
  (virtual or physical scrolling), the new blank line at the bottom of the scroll region,
  and the removal of the line at the top of the region when \<open>scrollTop\<close> is not 0.
\<close>

definition scroll_advance :: "Terminal \<Rightarrow> Terminal" where
  "scroll_advance s =
     (if \<not> physicalScroll s then
        (let a = s\<lparr>ybase := ybase s + 1\<rparr> in
         if ybase a > scrollback a then
           (let b = a\<lparr>ybase := ybase a - 1\<rparr>
            in b\<lparr>lines := js_slice_from (lines b) (- (ybase b + rows b) + 1)\<rparr>)
         else a)
      else
        (let oldline = js_get (lines s) 0
         in s\<lparr>lines := js_slice_from (lines s) (- (ybase s + rows s) + 1),
              scrollbackBuffer := scrollbackBuffer s @ [oldline]\<rparr>))"

definition scroll_region_top :: "Terminal \<Rightarrow> Terminal" where
  "scroll_region_top s =
     (if scrollTop s \<noteq> 0 then
        (let a = (if ybase s \<noteq> 0
                  then s\<lparr>ybase := ybase s - 1, ydisp := ybase s - 1\<rparr> else s)
         in a\<lparr>lines := js_splice (lines a) (ybase a + scrollTop a) 1 []\<rparr>)
      else s)"

definition scroll :: "Terminal \<Rightarrow> Terminal" where
  "scroll s =
     (let s1 = scroll_advance s;
          s2 = s1\<lparr>ydisp := ybase s1\<rparr>;
          lastline = ybase s2 + rows s2 - 1;
          r = lastline - (rows s2 - 1 - scrollBottom s2);
          s3 = s2\<lparr>lines := js_splice (lines s2) r 0 [blankLine s2 False]\<rparr>;
          s4 = scroll_region_top s3
      in updateRange (updateRange s4 (scrollTop s4)) (scrollBottom s4))"

text \<open>\<open>for (; x < this.cols; x++) line[x] = cell;\<close>\<close>

function fill_cells :: "row \<Rightarrow> int \<Rightarrow> int \<Rightarrow> LineCell \<Rightarrow> row" where
  "fill_cells line v e c = (if v < e then fill_cells (row_set line v c) (v + 1) e c else line)"
  by pat_completeness auto
termination
  by (relation "measure (\<lambda>(line, v, e, c). nat (e - v))") auto

declare fill_cells.simps [simp del]

text \<open>
  \<open>fillRight(x, y, ch)\<close>.  The row is only used when the loop runs, so a row that is
  \<open>undefined\<close> raises only then.
\<close>

definition fillRight :: "Terminal \<Rightarrow> int \<Rightarrow> int \<Rightarrow> jschar \<Rightarrow> error + Terminal" where
  "fillRight s v w c =
     (let cell = (eraseAttr s, c) in
      and_then
        (if v < cols s then change_row s (ybase s + w) (\<lambda>line. fill_cells line v (cols s) cell)
         else Inr (getRow s (ybase s + w)))
        (\<lambda>s1. Inr (updateRange s1 w)))"

definition eraseRight :: "Terminal \<Rightarrow> int \<Rightarrow> int \<Rightarrow> error + Terminal" where
  "eraseRight s v w = fillRight s v w SPACE"

definition eraseLine :: "Terminal \<Rightarrow> int \<Rightarrow> error + Terminal" where
  "eraseLine s w = eraseRight s 0 w"

text \<open>
  \<open>fillScreen(fillChar)\<close>: \<open>j = this.rows; while (j--) this.fillRight(0, j, fillChar)\<close>.
  With a negative \<open>rows\<close> the loop of the source does not end.
\<close>

definition fillScreen :: "Terminal \<Rightarrow> jschar \<Rightarrow> error + Terminal" where
  "fillScreen s c =
     (if rows s < 0 then Inl OutsideModel
      else count_down (nat (rows s)) (\<lambda>j t. fillRight t 0 j c) s)"

text \<open>
  \<open>eraseLeft(x, y)\<close>: \<open>x++; while (x !== 0) { x--; line[x] = ch; }\<close>, which does not end
  for \<open>x < -1\<close>.
\<close>

fun eraseLeft_cells :: "nat \<Rightarrow> row \<Rightarrow> LineCell \<Rightarrow> row" where
  "eraseLeft_cells 0 line c = line"
| "eraseLeft_cells (Suc n) line c = eraseLeft_cells n (row_set line (int n) c) c"

definition eraseLeft :: "Terminal \<Rightarrow> int \<Rightarrow> int \<Rightarrow> error + Terminal" where
  "eraseLeft s v w =
     (let cell = (eraseAttr s, SPACE) in
      if v < - 1 then Inl OutsideModel
      else
        and_then
          (if v + 1 \<noteq> 0
           then change_row s (ybase s + w) (\<lambda>line. eraseLeft_cells (nat (v + 1)) line cell)
           else Inr (getRow s (ybase s + w)))
          (\<lambda>s1. Inr (updateRange s1 w)))"

text \<open>
  \<open>for (; j < this.rows; j++) this.eraseLine(j);\<close> where \<open>e\<close> is \<open>this.rows\<close>, which
  \<open>eraseLine\<close> does not change.
\<close>

function eraseLines_up :: "int \<Rightarrow> int \<Rightarrow> Terminal \<Rightarrow> error + Terminal" where
  "eraseLines_up j e s =
     (if j < e then
        (case eraseLine s j of Inl err \<Rightarrow> Inl err | Inr s1 \<Rightarrow> eraseLines_up (j + 1) e s1)
      else Inr s)"
  by pat_completeness auto
termination
  by (relation "measure (\<lambda>(j, e, s). nat (e - j))") auto

declare eraseLines_up.simps [simp del]

section \<open>ESC operations\<close>

text \<open>\<open>index()\<close>, ESC D\<close>

definition index :: "Terminal \<Rightarrow> Terminal" where
  "index s =
     (let s1 = s\<lparr>y := y s + 1\<rparr>;
          s2 = (if y s1 > scrollBottom s1 then scroll (s1\<lparr>y := y s1 - 1\<rparr>) else s1)
      in s2\<lparr>state := STATE_NORMAL\<rparr>)"

text \<open>\<open>reverseIndex()\<close>, ESC M\<close>

definition reverseIndex :: "Terminal \<Rightarrow> Terminal" where
  "reverseIndex s =
     (let s1 = s\<lparr>y := y s - 1\<rparr>;
          s2 = (if y s1 < scrollTop s1 then
                  (let a = s1\<lparr>y := y s1 + 1\<rparr>;
                       b = a\<lparr>lines := js_splice (lines a) (y a + ybase a) 0 [blankLine a True]\<rparr>;
                       j = rows b - 1 - scrollBottom b;
                       c = b\<lparr>lines := js_splice (lines b) (rows b - 1 + ybase b - j + 1) 1 []\<rparr>
                   in updateRange (updateRange c (scrollTop c)) (scrollBottom c))
                else s1)
      in s2\<lparr>state := STATE_NORMAL\<rparr>)"

text \<open>\<open>tabSet()\<close>, ESC H\<close>

definition tabSet :: "Terminal \<Rightarrow> Terminal" where
  "tabSet s = s\<lparr>tabs := insert (x s) (tabs s), state := STATE_NORMAL\<rparr>"

definition saveCursor :: "Terminal \<Rightarrow> Terminal" where
  "saveCursor s = s\<lparr>savedX := x s, savedY := y s\<rparr>"

text \<open>\<open>this.x = this.savedX || 0; this.y = this.savedY || 0;\<close>\<close>

definition restoreCursor :: "Terminal \<Rightarrow> Terminal" where
  "restoreCursor s = s\<lparr>x := savedX s, y := savedY s\<rparr>"

section \<open>CSI operations\<close>

text \<open>
  Every operation takes the array \<open>params\<close> as the list of its numbers.  The parser always
  passes at least one.  Where the source reads a parameter that is missing and computes
  with \<open>undefined\<close>, the result is \<open>NaN\<close>, which the model has not: \<open>OutsideModel\<close>.
\<close>

definition first_param :: "int list \<Rightarrow> (int \<Rightarrow> error + Terminal) \<Rightarrow> error + Terminal" where
  "first_param ps f = (case ps of [] \<Rightarrow> Inl OutsideModel | p # _ \<Rightarrow> f p)"

text \<open>\<open>param = params[0]; if (param < 1) param = 1;\<close>\<close>

definition at_least_1 :: "int \<Rightarrow> int" where
  "at_least_1 p = (if p < 1 then 1 else p)"

text \<open>\<open>params[0] || 1\<close>\<close>

definition param_or_1 :: "int list \<Rightarrow> int" where
  "param_or_1 ps = (case ps of [] \<Rightarrow> 1 | p # _ \<Rightarrow> if p = 0 then 1 else p)"

definition cursorUp :: "Terminal \<Rightarrow> int list \<Rightarrow> error + Terminal" where
  "cursorUp s ps = first_param ps (\<lambda>p.
     (let s1 = s\<lparr>y := y s - at_least_1 p\<rparr>
      in Inr (if y s1 < 0 then s1\<lparr>y := 0\<rparr> else s1)))"

definition cursorDown :: "Terminal \<Rightarrow> int list \<Rightarrow> error + Terminal" where
  "cursorDown s ps = first_param ps (\<lambda>p.
     (let s1 = s\<lparr>y := y s + at_least_1 p\<rparr>
      in Inr (if y s1 \<ge> rows s1 then s1\<lparr>y := rows s1 - 1\<rparr> else s1)))"

definition cursorForward :: "Terminal \<Rightarrow> int list \<Rightarrow> error + Terminal" where
  "cursorForward s ps = first_param ps (\<lambda>p.
     (let s1 = s\<lparr>x := x s + at_least_1 p\<rparr>
      in Inr (if x s1 \<ge> cols s1 then s1\<lparr>x := cols s1 - 1\<rparr> else s1)))"

definition cursorBackward :: "Terminal \<Rightarrow> int list \<Rightarrow> error + Terminal" where
  "cursorBackward s ps = first_param ps (\<lambda>p.
     (let s1 = s\<lparr>x := x s - at_least_1 p\<rparr>
      in Inr (if x s1 < 0 then s1\<lparr>x := 0\<rparr> else s1)))"

definition cursorPos :: "Terminal \<Rightarrow> int list \<Rightarrow> error + Terminal" where
  "cursorPos s ps = first_param ps (\<lambda>p.
     (let r = p - 1;
          c = (if length ps \<ge> 2 then ps ! 1 - 1 else 0);
          r1 = (if r < 0 then 0 else if r \<ge> rows s then rows s - 1 else r);
          c1 = (if c < 0 then 0 else if c \<ge> cols s then cols s - 1 else c)
      in Inr (s\<lparr>x := c1, y := r1\<rparr>)))"

text \<open>
  \<open>eraseInDisplay(params)\<close>, CSI Ps J.  In case 1, \<open>j = this.y; while (j--)\<close> does not
  end for a negative \<open>y\<close>.
\<close>

definition eraseInDisplay :: "Terminal \<Rightarrow> int list \<Rightarrow> error + Terminal" where
  "eraseInDisplay s ps =
     (case ps of
        [] \<Rightarrow> Inr s
      | p # _ \<Rightarrow>
          if p = 0 then and_then (eraseRight s (x s) (y s)) (\<lambda>s1. eraseLines_up (y s1 + 1) (rows s1) s1)
          else if p = 1 then
            and_then (eraseLeft s (x s) (y s))
              (\<lambda>s1. if y s1 < 0 then Inl OutsideModel
                     else count_down (nat (y s1)) (\<lambda>j t. eraseLine t j) s1)
          else if p = 2 then
            (if rows s < 0 then Inl OutsideModel
             else count_down (nat (rows s)) (\<lambda>j t. eraseLine t j) s)
          else Inr s)"

definition eraseInLine :: "Terminal \<Rightarrow> int list \<Rightarrow> error + Terminal" where
  "eraseInLine s ps =
     (case ps of
        [] \<Rightarrow> Inr s
      | p # _ \<Rightarrow>
          if p = 0 then eraseRight s (x s) (y s)
          else if p = 1 then eraseLeft s (x s) (y s)
          else if p = 2 then eraseLine s (y s)
          else Inr s)"

text \<open>\<open>deviceStatus(params)\<close>, CSI Ps n\<close>

definition deviceStatus :: "Terminal \<Rightarrow> int list \<Rightarrow> error + Terminal" where
  "deviceStatus s ps =
     (case ps of
        [] \<Rightarrow> Inr s
      | p # _ \<Rightarrow>
          if prefix s = [] then
            (if p = 5 then Inr (send s (ESC # str ''[0n''))
             else if p = 6 then
               Inr (send s (ESC # str ''['' @ num_str (y s + 1) @ str '';'' @ num_str (x s + 1)
                            @ str ''R''))
             else Inr s)
          else if prefix s = str ''?'' then
            (if p = 6 then
               Inr (send s (ESC # str ''[?'' @ num_str (y s + 1) @ str '';'' @ num_str (x s + 1)
                            @ str ''R''))
             else Inr s)
          else Inr s)"

text \<open>\<open>insertChars(params)\<close>, CSI Ps @\<close>

fun insertChars_loop :: "nat \<Rightarrow> int \<Rightarrow> int \<Rightarrow> LineCell \<Rightarrow> Terminal \<Rightarrow> error + Terminal" where
  "insertChars_loop 0 r j c s = Inr s"
| "insertChars_loop (Suc n) r j c s =
     (if j < cols s then
        and_then (change_row s r (\<lambda>line. butlast (js_splice line j 0 [Some c])))
          (insertChars_loop n r (j + 1) c)
      else Inr s)"

definition insertChars :: "Terminal \<Rightarrow> int list \<Rightarrow> error + Terminal" where
  "insertChars s ps = first_param ps (\<lambda>p.
     insertChars_loop (nat (at_least_1 p)) (y s + ybase s) (x s) (eraseAttr s, SPACE) s)"

definition cursorNextLine :: "Terminal \<Rightarrow> int list \<Rightarrow> error + Terminal" where
  "cursorNextLine s ps = first_param ps (\<lambda>p.
     (let s1 = s\<lparr>y := y s + at_least_1 p\<rparr>;
          s2 = (if y s1 \<ge> rows s1 then s1\<lparr>y := rows s1 - 1\<rparr> else s1)
      in Inr (s2\<lparr>x := 0\<rparr>)))"

definition cursorPrecedingLine :: "Terminal \<Rightarrow> int list \<Rightarrow> error + Terminal" where
  "cursorPrecedingLine s ps = first_param ps (\<lambda>p.
     (let s1 = s\<lparr>y := y s - at_least_1 p\<rparr>;
          s2 = (if y s1 < 0 then s1\<lparr>y := 0\<rparr> else s1)
      in Inr (s2\<lparr>x := 0\<rparr>)))"

definition cursorCharAbsolute :: "Terminal \<Rightarrow> int list \<Rightarrow> error + Terminal" where
  "cursorCharAbsolute s ps = first_param ps (\<lambda>p. Inr (s\<lparr>x := at_least_1 p - 1\<rparr>))"

text \<open>\<open>insertLines(params)\<close>, CSI Ps L, and \<open>deleteLines(params)\<close>, CSI Ps M\<close>

definition insertLines :: "Terminal \<Rightarrow> int list \<Rightarrow> error + Terminal" where
  "insertLines s ps = first_param ps (\<lambda>p.
     (let r = y s + ybase s;
          j0 = rows s - 1 - scrollBottom s;
          j = rows s - 1 + ybase s - j0 + 1;
          s1 = times_do (nat (at_least_1 p))
                 (\<lambda>t. (let a = getRow t r;
                            b = a\<lparr>lines := js_splice (lines a) r 0 [blankLine a True]\<rparr>
                        in b\<lparr>lines := js_splice (lines b) j 1 []\<rparr>)) s
      in Inr (updateRange (updateRange s1 (y s1)) (scrollBottom s1))))"

definition deleteLines :: "Terminal \<Rightarrow> int list \<Rightarrow> error + Terminal" where
  "deleteLines s ps = first_param ps (\<lambda>p.
     (let r = y s + ybase s;
          j0 = rows s - 1 - scrollBottom s;
          j = rows s - 1 + ybase s - j0;
          s1 = times_do (nat (at_least_1 p))
                 (\<lambda>t. (let a = getRow t (j + 1);
                            b = a\<lparr>lines := js_splice (lines a) (j + 1) 0 [blankLine a True]\<rparr>
                        in b\<lparr>lines := js_splice (lines b) r 1 []\<rparr>)) s
      in Inr (updateRange (updateRange s1 (y s1)) (scrollBottom s1))))"

text \<open>
  \<open>deleteChars(params)\<close>, CSI Ps P: \<open>line = this.lines[row]\<close> without \<open>_getRow\<close>, then
  \<open>line.splice(this.x, 1); line.push(ch);\<close> as many times as the parameter says.
\<close>

definition deleteChars :: "Terminal \<Rightarrow> int list \<Rightarrow> error + Terminal" where
  "deleteChars s ps = first_param ps (\<lambda>p.
     (let r = y s + ybase s; c = (eraseAttr s, SPACE) in
      case js_get (lines s) r of
        None \<Rightarrow> Inl TypeError
      | Some line \<Rightarrow>
          Inr (s\<lparr>lines := (lines s)
                 [nat r := ((\<lambda>l. js_splice l (x s) 1 [] @ [Some c]) ^^ nat (at_least_1 p)) line]\<rparr>)))"

text \<open>\<open>eraseChars(params)\<close>, CSI Ps X: \<open>while (param-- && j < this.cols) { line[j] = ch; j++; }\<close>\<close>

fun eraseChars_loop :: "nat \<Rightarrow> int \<Rightarrow> int \<Rightarrow> LineCell \<Rightarrow> row \<Rightarrow> row" where
  "eraseChars_loop 0 j c cell line = line"
| "eraseChars_loop (Suc n) j c cell line =
     (if j < c then eraseChars_loop n (j + 1) c cell (row_set line j cell) else line)"

definition eraseChars :: "Terminal \<Rightarrow> int list \<Rightarrow> error + Terminal" where
  "eraseChars s ps = first_param ps (\<lambda>p.
     (let r = y s + ybase s; cell = (eraseAttr s, SPACE) in
      if x s < cols s
      then change_row s r (eraseChars_loop (nat (at_least_1 p)) (x s) (cols s) cell)
      else Inr (getRow s r)))"

definition charPosAbsolute :: "Terminal \<Rightarrow> int list \<Rightarrow> error + Terminal" where
  "charPosAbsolute s ps = first_param ps (\<lambda>p.
     (let s1 = s\<lparr>x := at_least_1 p - 1\<rparr>
      in Inr (if x s1 \<ge> cols s1 then s1\<lparr>x := cols s1 - 1\<rparr> else s1)))"

definition HPositionRelative :: "Terminal \<Rightarrow> int list \<Rightarrow> error + Terminal" where
  "HPositionRelative s ps = first_param ps (\<lambda>p.
     (let s1 = s\<lparr>x := x s + at_least_1 p\<rparr>
      in Inr (if x s1 \<ge> cols s1 then s1\<lparr>x := cols s1 - 1\<rparr> else s1)))"

text \<open>
  \<open>sendDeviceAttributes(params)\<close>, CSI Ps c and CSI > Ps c.  Without a parameter,
  \<open>params[0] + 'c'\<close> of the linux branch is the text \<open>undefinedc\<close>.
\<close>

definition sendDeviceAttributes :: "Terminal \<Rightarrow> int list \<Rightarrow> error + Terminal" where
  "sendDeviceAttributes s ps =
     (if (case ps of [] \<Rightarrow> False | p # _ \<Rightarrow> p > 0) then Inr s
      else if prefix s = [] then
        (if is_term s (str ''xterm'') \<or> is_term s (str ''rxvt-unicode'')
            \<or> is_term s (str ''screen'')
         then Inr (send s (ESC # str ''[?1;2c''))
         else if is_term s (str ''linux'') then Inr (send s (ESC # str ''[?6c''))
         else Inr s)
      else if prefix s = str ''>'' then
        (if is_term s (str ''xterm'') then Inr (send s (ESC # str ''[>0;276;0c''))
         else if is_term s (str ''rxvt-unicode'') then Inr (send s (ESC # str ''[>85;95;0c''))
         else if is_term s (str ''linux'') then
           (case ps of [] \<Rightarrow> Inl OutsideModel
            | p # _ \<Rightarrow> Inr (send s (num_str p @ str ''c'')))
         else if is_term s (str ''screen'') then Inr (send s (ESC # str ''[>83;40003;0c''))
         else Inr s)
      else Inr s)"

definition linePosAbsolute :: "Terminal \<Rightarrow> int list \<Rightarrow> error + Terminal" where
  "linePosAbsolute s ps = first_param ps (\<lambda>p.
     (let s1 = s\<lparr>y := at_least_1 p - 1\<rparr>
      in Inr (if y s1 \<ge> rows s1 then s1\<lparr>y := rows s1 - 1\<rparr> else s1)))"

definition VPositionRelative :: "Terminal \<Rightarrow> int list \<Rightarrow> error + Terminal" where
  "VPositionRelative s ps = first_param ps (\<lambda>p.
     (let s1 = s\<lparr>y := y s + at_least_1 p\<rparr>
      in Inr (if y s1 \<ge> rows s1 then s1\<lparr>y := rows s1 - 1\<rparr> else s1)))"

text \<open>
  \<open>HVPosition(params)\<close>, CSI Ps ; Ps f.  It writes the clamped values back into the
  array, which is \<open>this.params\<close>.  With one parameter \<open>params[1] - 1\<close> is \<open>NaN\<close>.
\<close>

definition HVPosition :: "Terminal \<Rightarrow> int list \<Rightarrow> error + Terminal" where
  "HVPosition s ps =
     (case ps of
        p0 # p1 # rest \<Rightarrow>
          (let q0 = at_least_1 p0; q1 = at_least_1 p1;
               s1 = s\<lparr>params := map Num (q0 # q1 # rest)\<rparr>;
               s2 = s1\<lparr>y := q0 - 1\<rparr>;
               s3 = (if y s2 \<ge> rows s2 then s2\<lparr>y := rows s2 - 1\<rparr> else s2);
               s4 = s3\<lparr>x := q1 - 1\<rparr>
           in Inr (if x s4 \<ge> cols s4 then s4\<lparr>x := cols s4 - 1\<rparr> else s4))
      | _ \<Rightarrow> Inl OutsideModel)"

text \<open>
  \<open>setMode(params)\<close>, CSI Pm h.  Called with the array it calls itself on each element;
  \<open>setMode1\<close> is the call on one number.  The mouse modes also set a style of the DOM
  element, which is not modelled.
\<close>

definition setMode1 :: "Terminal \<Rightarrow> int \<Rightarrow> error + Terminal" where
  "setMode1 s p =
     (if prefix s = [] then
        (if p = 4 then Inr (s\<lparr>insertMode := True\<rparr>) else Inr s)
      else if prefix s = str ''?'' then
        (if p = 1 then Inr (s\<lparr>applicationCursor := True\<rparr>)
         else if p = 2 then
           Inr (setgCharset (setgCharset (setgCharset (setgCharset s 0 None) 1 None) 2 None)
                  3 None)
         else if p = 3 then resize (s\<lparr>savedCols := Some (cols s)\<rparr>) 132 (rows s)
         else if p = 6 then Inr (s\<lparr>originMode := True\<rparr>)
         else if p = 7 then Inr (s\<lparr>wraparoundMode := True\<rparr>)
         else if p = 12 then Inr s
         else if p = 66 then Inr (s\<lparr>applicationKeypad := True\<rparr>)
         else if p = 9 \<or> p = 1000 \<or> p = 1002 \<or> p = 1003 then
           Inr (s\<lparr>x10Mouse := (p = 9), vt200Mouse := (p = 1000), normalMouse := (p > 1000),
                  mouseEvents := True\<rparr>)
         else if p = 1004 then Inr (s\<lparr>sendFocus := True\<rparr>)
         else if p = 1005 then Inr (s\<lparr>utfMouse := True\<rparr>)
         else if p = 1006 then Inr (s\<lparr>sgrMouse := True\<rparr>)
         else if p = 1015 then Inr (s\<lparr>urxvtMouse := True\<rparr>)
         else if p = 25 then Inr (s\<lparr>cursorHidden := False\<rparr>)
         else if p = 1049 \<or> p = 47 \<or> p = 1047 then
           (if normal s = None then
              (let saved = \<lparr>saved_lines = lines s, saved_cols = cols s, saved_rows = rows s,
                             saved_ybase = ybase s, saved_ydisp = ydisp s,
                             saved_x = x s, saved_y = y s,
                             saved_scrollTop = scrollTop s,
                             saved_scrollBottom = scrollBottom s, saved_tabs = tabs s\<rparr>;
                   previousCharset = charset s;
                   previousGlevel = glevel s;
                   previousCharsets = charsets s;
                   s1 = reset s;
                   s2 = s1\<lparr>charset := previousCharset, glevel := previousGlevel,
                           charsets := previousCharsets\<rparr>;
                   s3 = s2\<lparr>normal := Some saved\<rparr>
               in Inr (showCursor s3))
            else Inr s)
         else Inr s)
      else Inr s)"

fun setMode :: "Terminal \<Rightarrow> int list \<Rightarrow> error + Terminal" where
  "setMode s [] = Inr s"
| "setMode s (p # ps) = and_then (setMode1 s p) (\<lambda>s1. setMode s1 ps)"

text \<open>\<open>resetMode(params)\<close>, CSI Pm l, in the same way.\<close>

definition resetMode1 :: "Terminal \<Rightarrow> int \<Rightarrow> error + Terminal" where
  "resetMode1 s p =
     (if prefix s = [] then
        (if p = 4 then Inr (s\<lparr>insertMode := False\<rparr>) else Inr s)
      else if prefix s = str ''?'' then
        (if p = 1 then Inr (s\<lparr>applicationCursor := False\<rparr>)
         else if p = 3 then
           and_then (fillScreen s SPACE)
             (\<lambda>s1. (let s2 = s1\<lparr>x := 0, y := 0\<rparr> in
                     case savedCols s2 of
                       Some c \<Rightarrow> if cols s2 = 132 \<and> c \<noteq> 0 then resize s2 c (rows s2)
                                 else Inr s2
                     | None \<Rightarrow> Inr s2))
         else if p = 6 then Inr (s\<lparr>originMode := False\<rparr>)
         else if p = 7 then Inr (s\<lparr>wraparoundMode := False\<rparr>)
         else if p = 12 then Inr s
         else if p = 66 then Inr (s\<lparr>applicationKeypad := False\<rparr>)
         else if p = 9 \<or> p = 1000 \<or> p = 1002 \<or> p = 1003 then
           Inr (s\<lparr>x10Mouse := False, vt200Mouse := False, normalMouse := False,
                  mouseEvents := False\<rparr>)
         else if p = 1004 then Inr (s\<lparr>sendFocus := False\<rparr>)
         else if p = 1005 then Inr (s\<lparr>utfMouse := False\<rparr>)
         else if p = 1006 then Inr (s\<lparr>sgrMouse := False\<rparr>)
         else if p = 1015 then Inr (s\<lparr>urxvtMouse := False\<rparr>)
         else if p = 25 then Inr (s\<lparr>cursorHidden := True\<rparr>)
         else if p = 1049 \<or> p = 47 \<or> p = 1047 then
           (case normal s of
              Some n \<Rightarrow>
                (let currentcols = cols s;
                     currentrows = rows s;
                     s1 = s\<lparr>lines := saved_lines n, cols := saved_cols n, rows := saved_rows n,
                            ybase := saved_ybase n, ydisp := saved_ydisp n,
                            x := saved_x n, y := saved_y n,
                            scrollTop := saved_scrollTop n,
                            scrollBottom := saved_scrollBottom n, tabs := saved_tabs n\<rparr>;
                     s2 = s1\<lparr>normal := None\<rparr>
                 in and_then (resize s2 currentcols currentrows)
                      (\<lambda>s3. Inr (showCursor (refresh s3 0 (rows s3 - 1)))))
            | None \<Rightarrow> Inr s)
         else Inr s)
      else Inr s)"

fun resetMode :: "Terminal \<Rightarrow> int list \<Rightarrow> error + Terminal" where
  "resetMode s [] = Inr s"
| "resetMode s (p # ps) = and_then (resetMode1 s p) (\<lambda>s1. resetMode s1 ps)"

text \<open>
  \<open>setScrollRegion(params)\<close>, CSI Ps ; Ps r:
  \<open>this.scrollTop = (params[0] || 1) - 1; this.scrollBottom = (params[1] || this.rows) - 1;\<close>
\<close>

definition setScrollRegion :: "Terminal \<Rightarrow> int list \<Rightarrow> error + Terminal" where
  "setScrollRegion s ps =
     (if prefix s \<noteq> [] then Inr s
      else
        (let top = param_or_1 ps;
             bottom = (case js_get ps 1 of None \<Rightarrow> rows s
                        | Some p \<Rightarrow> if p = 0 then rows s else p)
         in Inr (s\<lparr>scrollTop := top - 1, scrollBottom := bottom - 1, x := 0, y := 0\<rparr>)))"

definition cursorForwardTab :: "Terminal \<Rightarrow> int list \<Rightarrow> error + Terminal" where
  "cursorForwardTab s ps =
     Inr (times_do (nat (param_or_1 ps)) (\<lambda>t. t\<lparr>x := nextStop t (x t)\<rparr>) s)"

definition cursorBackwardTab :: "Terminal \<Rightarrow> int list \<Rightarrow> error + Terminal" where
  "cursorBackwardTab s ps =
     Inr (times_do (nat (param_or_1 ps)) (\<lambda>t. t\<lparr>x := prevStop t (x t)\<rparr>) s)"

text \<open>\<open>scrollUp(params)\<close>, CSI Ps S, and \<open>scrollDown(params)\<close>, CSI Ps T\<close>

definition scrollUp :: "Terminal \<Rightarrow> int list \<Rightarrow> error + Terminal" where
  "scrollUp s ps =
     (let s1 = times_do (nat (param_or_1 ps))
                 (\<lambda>t. (let a = t\<lparr>lines := js_splice (lines t) (ybase t + scrollTop t) 1 []\<rparr>
                        in a\<lparr>lines := js_splice (lines a) (ybase a + scrollBottom a) 0
                                        [blankLine a False]\<rparr>)) s
      in Inr (updateRange (updateRange s1 (scrollTop s1)) (scrollBottom s1)))"

definition scrollDown :: "Terminal \<Rightarrow> int list \<Rightarrow> error + Terminal" where
  "scrollDown s ps =
     (let s1 = times_do (nat (param_or_1 ps))
                 (\<lambda>t. (let a = t\<lparr>lines := js_splice (lines t) (ybase t + scrollBottom t) 1 []\<rparr>
                        in a\<lparr>lines := js_splice (lines a) (ybase a + scrollTop a) 0
                                        [blankLine a False]\<rparr>)) s
      in Inr (updateRange (updateRange s1 (scrollTop s1)) (scrollBottom s1)))"

text \<open>
  \<open>repeatPrecedingCharacter(params)\<close>, CSI Ps b:
  \<open>while (param--) { line[this.x] = ch; this.x++; }\<close>
\<close>

fun repeat_loop :: "nat \<Rightarrow> LineCell \<Rightarrow> row \<times> int \<Rightarrow> row \<times> int" where
  "repeat_loop 0 c (line, v) = (line, v)"
| "repeat_loop (Suc n) c (line, v) = repeat_loop n c (row_set line v c, v + 1)"

definition repeatPrecedingCharacter :: "Terminal \<Rightarrow> int list \<Rightarrow> error + Terminal" where
  "repeatPrecedingCharacter s ps =
     (let param = param_or_1 ps;
          r = ybase s + y s;
          s1 = getRow s r
      in case js_get (lines s1) r of
           None \<Rightarrow> Inl TypeError
         | Some line \<Rightarrow>
             (let c = (case row_get line (x s1 - 1) of Some c \<Rightarrow> c
                        | None \<Rightarrow> (defAttr s1, SPACE))
              in case repeat_loop (nat param) c (line, x s1) of
                   (line1, v) \<Rightarrow> Inr (s1\<lparr>lines := (lines s1)[nat r := line1], x := v\<rparr>)))"

text \<open>\<open>tabClear(params)\<close>, CSI Ps g\<close>

definition tabClear :: "Terminal \<Rightarrow> int list \<Rightarrow> error + Terminal" where
  "tabClear s ps =
     (case ps of
        [] \<Rightarrow> Inr s
      | p # _ \<Rightarrow>
          if p \<le> 0 then Inr (s\<lparr>tabs := tabs s - {x s}\<rparr>)
          else if p = 3 then Inr (s\<lparr>tabs := {}\<rparr>)
          else Inr s)"

text \<open>\<open>softReset(params)\<close>, CSI ! p\<close>

definition softReset :: "Terminal \<Rightarrow> int list \<Rightarrow> error + Terminal" where
  "softReset s ps =
     Inr (s\<lparr>cursorHidden := False, insertMode := False, originMode := False,
            wraparoundMode := False, applicationKeypad := False, applicationCursor := False,
            scrollTop := 0, scrollBottom := rows s - 1, curAttr := defAttr s,
            x := 0, y := 0, charset := None, glevel := 0, charsets := (\<lambda>g. None)\<rparr>)"

section \<open>The parser\<close>

abbreviation CH :: "char \<Rightarrow> jschar" where
  "CH c \<equiv> of_char c"

definition isWide :: "jschar \<Rightarrow> bool" where
  "isWide c =
     (if c \<le> 0xff00 then False
      else (c \<ge> 0xff01 \<and> c \<le> 0xffbe) \<or> (c \<ge> 0xffc2 \<and> c \<le> 0xffc7)
         \<or> (c \<ge> 0xffca \<and> c \<le> 0xffcf) \<or> (c \<ge> 0xffd2 \<and> c \<le> 0xffd7)
         \<or> (c \<ge> 0xffda \<and> c \<le> 0xffdc) \<or> (c \<ge> 0xffe0 \<and> c \<le> 0xffe6)
         \<or> (c \<ge> 0xffe8 \<and> c \<le> 0xffee))"

text \<open>\<open>if (this.charset && this.charset[ch]) ch = this.charset[ch];\<close>\<close>

definition map_charset :: "Terminal \<Rightarrow> jschar \<Rightarrow> jschar" where
  "map_charset s c =
     (case charset s of
        None \<Rightarrow> c
      | Some cs \<Rightarrow> (case charset_lookup cs c of None \<Rightarrow> c | Some r \<Rightarrow> r))"

text \<open>
  The wrap of a printable character at the margin:
  \<open>if (this.x >= this.cols) { this.x = 0; this.updateRange(this.y); this.y++;
  if (this.y > this.scrollBottom) { this.y--; this.scroll(); } }\<close>
\<close>

definition wrap_at_margin :: "Terminal \<Rightarrow> Terminal" where
  "wrap_at_margin s =
     (if x s \<ge> cols s then
        (let a = updateRange (s\<lparr>x := 0\<rparr>) (y s);
             b = a\<lparr>y := y a + 1\<rparr>
         in if y b > scrollBottom b then scroll (b\<lparr>y := y b - 1\<rparr>) else b)
      else s)"

text \<open>The lines of insert mode, on the row of the cursor.\<close>

definition insert_blank :: "Terminal \<Rightarrow> jschar \<Rightarrow> row \<Rightarrow> row" where
  "insert_blank s c line =
     (let l1 = js_splice line (x s) 0 [Some (curAttr s, SPACE)];
          l2 = (if isWide c then js_splice l1 (x s) 0 [Some (curAttr s, SPACE)] else l1)
      in js_splice l2 (cols s) (int (length l2) - cols s) [])"

text \<open>The branch \<open>default:\<close> of the normal state for \<open>ch >= ' '\<close>.\<close>

definition print_char :: "Terminal \<Rightarrow> jschar \<Rightarrow> error + Terminal" where
  "print_char s c0 =
     (let c = map_charset s c0;
          s1 = wrap_at_margin s
      in and_then
           (change_row s1 (y s1 + ybase s1)
              (\<lambda>line. row_set (if insertMode s1 then insert_blank s1 c line else line) (x s1)
                         (curAttr s1, c)))
           (\<lambda>s2.
              (let s3 = updateRange (s2\<lparr>x := x s2 + 1\<rparr>) (y s2) in
               if isWide c then
                 (let j = y s3 + ybase s3 in
                  if cols s3 < 2 \<or> x s3 \<ge> cols s3 then
                    change_row s3 j (\<lambda>line. row_set line (x s3 - 1) (curAttr s3, SPACE))
                  else
                    and_then
                      (change_row s3 j (\<lambda>line. row_set line (x s3) (curAttr s3, SPACE)))
                      (\<lambda>s4. Inr (s4\<lparr>x := x s4 + 1\<rparr>)))
               else Inr s3)))"

text \<open>\<open>bell()\<close> without the visual bell of the renderer.\<close>

definition bell :: "Terminal \<Rightarrow> Terminal" where
  "bell s = emit s Bell"

text \<open>The state \<open>STATE_NORMAL\<close> of \<open>_processWriteData\<close>.\<close>

definition process_normal :: "Terminal \<Rightarrow> jschar \<Rightarrow> error + Terminal" where
  "process_normal s c =
     (if c = 7 then Inr (bell s)
      else if c = 10 \<or> c = 11 \<or> c = 12 then
        (let s1 = (if convertEol s then s\<lparr>x := 0\<rparr> else s);
             s2 = s1\<lparr>y := y s1 + 1\<rparr>
         in Inr (if y s2 > scrollBottom s2 then scroll (s2\<lparr>y := y s2 - 1\<rparr>) else s2))
      else if c = 13 then Inr (s\<lparr>x := 0\<rparr>)
      else if c = 8 then Inr (if x s > 0 then s\<lparr>x := x s - 1\<rparr> else s)
      else if c = 9 then Inr (s\<lparr>x := nextStop s (x s)\<rparr>)
      else if c = 14 then Inr (setgLevel s 1)
      else if c = 15 then Inr (setgLevel s 0)
      else if c = ESC then Inr (s\<lparr>state := STATE_ESCAPE\<rparr>)
      else if c \<ge> SPACE then print_char s c
      else Inr s)"

text \<open>\<open>_processDataEscape(ch, i)\<close>: the new state and the index it returns.\<close>

definition processDataEscape :: "Terminal \<Rightarrow> jschar \<Rightarrow> int \<Rightarrow> Terminal \<times> int" where
  "processDataEscape s c i =
     (if c = CH (CHR ''['') then
        (s\<lparr>params := [], currentParam := Num 0, state := STATE_CSI\<rparr>, i)
      else if c = CH (CHR '']'') then
        (s\<lparr>params := [], currentParam := Num 0, state := STATE_OSC\<rparr>, i)
      else if c = CH (CHR ''&'') then
        (s\<lparr>params := [], currentParam := Str [], state := STATE_APPLICATION_START\<rparr>, i)
      else if c = CH (CHR ''P'') then
        (s\<lparr>params := [], currentParam := Num 0, state := STATE_DCS\<rparr>, i)
      else if c = CH (CHR ''_'') then (s\<lparr>state := STATE_IGNORE\<rparr>, i)
      else if c = CH (CHR ''^'') then (s\<lparr>state := STATE_IGNORE\<rparr>, i)
      else if c = CH (CHR ''c'') then (reset s, i)
      else if c = CH (CHR ''E'') then (index (s\<lparr>x := 0\<rparr>), i)
      else if c = CH (CHR ''D'') then (index s, i)
      else if c = CH (CHR ''M'') then (reverseIndex s, i)
      else if c = CH (CHR ''%'') then
        ((setgCharset (setgLevel s 0) 0 None)\<lparr>state := STATE_NORMAL\<rparr>, i + 1)
      else if c = CH (CHR ''('') then (s\<lparr>gcharset := Some 0, state := STATE_CHARSET\<rparr>, i)
      else if c = CH (CHR '')'') then (s\<lparr>gcharset := Some 1, state := STATE_CHARSET\<rparr>, i)
      else if c = CH (CHR ''*'') then (s\<lparr>gcharset := Some 2, state := STATE_CHARSET\<rparr>, i)
      else if c = CH (CHR ''+'') then (s\<lparr>gcharset := Some 3, state := STATE_CHARSET\<rparr>, i)
      else if c = CH (CHR ''-'') then (s\<lparr>gcharset := Some 1, state := STATE_CHARSET\<rparr>, i)
      else if c = CH (CHR ''.'') then (s\<lparr>gcharset := Some 2, state := STATE_CHARSET\<rparr>, i)
      else if c = CH (CHR ''/'') then
        (s\<lparr>gcharset := Some 3, state := STATE_CHARSET\<rparr>, i - 1)
      else if c = CH (CHR ''N'') then (s, i)
      else if c = CH (CHR ''O'') then (s, i)
      else if c = CH (CHR ''n'') then (setgLevel s 2, i)
      else if c = CH (CHR ''o'') then (setgLevel s 3, i)
      else if c = CH (CHR ''|'') then (setgLevel s 3, i)
      else if c = CH (CHR ''}'') then (setgLevel s 2, i)
      else if c = CH (CHR ''~'') then (setgLevel s 1, i)
      else if c = CH (CHR ''7'') then ((saveCursor s)\<lparr>state := STATE_NORMAL\<rparr>, i)
      else if c = CH (CHR ''8'') then ((restoreCursor s)\<lparr>state := STATE_NORMAL\<rparr>, i)
      else if c = CH (CHR ''#'') then (s\<lparr>state := STATE_DEC_HASH\<rparr>, i)
      else if c = CH (CHR ''H'') then (tabSet s, i)
      else if c = CH (CHR ''='') then
        (s\<lparr>applicationKeypad := True, state := STATE_NORMAL\<rparr>, i)
      else if c = CH (CHR ''>'') then
        (s\<lparr>applicationKeypad := False, state := STATE_NORMAL\<rparr>, i)
      else (s\<lparr>state := STATE_NORMAL\<rparr>, i))"

text \<open>
  \<open>_processDataCharset(ch, i)\<close>.  Every table but \<open>SCLD\<close> is \<open>null\<close>.  With \<open>gcharset\<close>
  \<open>null\<close> the assignment \<open>this.charsets[g] = charset\<close> sets a property that no numeric
  index reads.
\<close>

definition processDataCharset :: "Terminal \<Rightarrow> jschar \<Rightarrow> int \<Rightarrow> Terminal \<times> int" where
  "processDataCharset s c i =
     (let cs = (if c = CH (CHR ''0'') then Some SCLD else None);
          i1 = (if c = CH (CHR ''/'') then i + 1 else i);
          s1 = (case gcharset s of None \<Rightarrow> s | Some g \<Rightarrow> setgCharset s g cs)
      in (s1\<lparr>gcharset := None, state := STATE_NORMAL\<rparr>, i1))"

text \<open>\<open>currentParam += ch\<close>: a number is turned into its text first.\<close>

definition param_text :: "param \<Rightarrow> jsstring" where
  "param_text p = (case p of Num n \<Rightarrow> num_str n | Str t \<Rightarrow> t)"

definition param_append :: "param \<Rightarrow> jschar \<Rightarrow> param" where
  "param_append p c = Str (param_text p @ [c])"

text \<open>\<open>!this.currentParam\<close>\<close>

definition param_falsy :: "param \<Rightarrow> bool" where
  "param_falsy p = (case p of Num n \<Rightarrow> n = 0 | Str t \<Rightarrow> t = [])"

text \<open>\<open>this.currentParam * 10 + ch.charCodeAt(0) - 48\<close>, for a number.\<close>

definition param_digit :: "param \<Rightarrow> jschar \<Rightarrow> error + param" where
  "param_digit p c =
     (case p of Num n \<Rightarrow> Inr (Num (n * 10 + int c - 48)) | Str t \<Rightarrow> Inl OutsideModel)"

text \<open>\<open>_processDataOSC(ch, i)\<close>\<close>

definition processDataOSC :: "Terminal \<Rightarrow> jschar \<Rightarrow> int \<Rightarrow> error + Terminal \<times> int" where
  "processDataOSC s c i =
     (if c = ESC \<or> c = BEL then
        (let i1 = (if c = ESC then i + 1 else i);
             s1 = s\<lparr>params := params s @ [currentParam s]\<rparr>
         in and_then
              (if js_get (params s1) 0 \<in> {Some (Num 0), Some (Num 1), Some (Num 2)} then
                 (case js_get (params s1) 1 of
                    Some (Str t) \<Rightarrow>
                      if t \<noteq> [] then Inr (emit (s1\<lparr>title := t\<rparr>) (Title t)) else Inr s1
                  | Some (Num n) \<Rightarrow> if n \<noteq> 0 then Inl OutsideModel else Inr s1
                  | None \<Rightarrow> Inr s1)
               else Inr s1)
              (\<lambda>s2. Inr (s2\<lparr>params := [], currentParam := Num 0, state := STATE_NORMAL\<rparr>, i1)))
      else if params s = [] then
        (if c \<ge> 48 \<and> c \<le> 57 then
           and_then (param_digit (currentParam s) c) (\<lambda>p. Inr (s\<lparr>currentParam := p\<rparr>, i))
         else if c = CH (CHR '';'') then
           Inr (s\<lparr>params := params s @ [currentParam s], currentParam := Str []\<rparr>, i)
         else Inr (s, i))
      else Inr (s\<lparr>currentParam := param_append (currentParam s) c\<rparr>, i))"

text \<open>\<open>_processDataDCS(ch, i)\<close>; \<open>valid\<close> is never set, so each reply starts \<open>ESC P 0\<close>.\<close>

definition processDataDCS :: "Terminal \<Rightarrow> jschar \<Rightarrow> int \<Rightarrow> Terminal \<times> int" where
  "processDataDCS s c i =
     (if c = ESC \<or> c = BEL then
        (let i1 = (if c = ESC then i + 1 else i);
             pt = currentParam s;
             s1 = (if prefix s = str ''$q'' then
                     (let replyPt =
                            (if pt = Str [34, 113] then [48, 34, 113]
                             else if pt = Str [34, 112] then [54, 49, 34, 112]
                             else if pt = Str (str ''r'') then
                               num_str (scrollTop s + 1) @ str '';''
                                 @ num_str (scrollBottom s + 1) @ str ''r''
                             else if pt = Str (str ''m'') then str ''0m''
                             else [])
                      in send s (ESC # str ''P'' @ str ''0'' @ str ''$r'' @ replyPt @ [ESC, 92]))
                   else if prefix s = str ''+q'' then
                     send s (ESC # str ''P'' @ str ''0'' @ str ''+r'' @ param_text pt @ [ESC, 92])
                   else s)
         in (s1\<lparr>currentParam := Num 0, prefix := [], state := STATE_NORMAL\<rparr>, i1))
      else if param_falsy (currentParam s) then
        (if prefix s = [] \<and> c \<noteq> CH (CHR ''$'') \<and> c \<noteq> CH (CHR ''+'')
         then (s\<lparr>currentParam := Str [c]\<rparr>, i)
         else if length (prefix s) = 2 then (s\<lparr>currentParam := Str [c]\<rparr>, i)
         else (s\<lparr>prefix := prefix s @ [c]\<rparr>, i))
      else (s\<lparr>currentParam := param_append (currentParam s) c\<rparr>, i))"

definition processDataIgnore :: "Terminal \<Rightarrow> jschar \<Rightarrow> int \<Rightarrow> Terminal \<times> int" where
  "processDataIgnore s c i =
     (if c = ESC \<or> c = BEL then (s\<lparr>state := STATE_NORMAL\<rparr>, if c = ESC then i + 1 else i)
      else (s, i))"

text \<open>\<open>_processDataApplicationStart(ch)\<close>\<close>

definition processDataApplicationStart :: "Terminal \<Rightarrow> jschar \<Rightarrow> Terminal" where
  "processDataApplicationStart s c =
     (if (c \<ge> CH (CHR ''a'') \<and> c \<le> CH (CHR ''z'')) \<or> (c \<ge> CH (CHR ''A'') \<and> c \<le> CH (CHR ''Z''))
         \<or> (c \<ge> 48 \<and> c \<le> 57) \<or> c = CH (CHR ''-'') \<or> c = CH (CHR ''/'')
      then s\<lparr>currentParam := param_append (currentParam s) c\<rparr>
      else if c = CH (CHR '';'') then
        s\<lparr>params := params s @ [currentParam s], currentParam := Str []\<rparr>
      else if c = BEL then
        (let s1 = s\<lparr>params := params s @ [currentParam s]\<rparr> in
         if (case (js_get (params s1) 0, applicationModeCookie s1) of
               (Some (Str t), Some k) \<Rightarrow> t = k | _ \<Rightarrow> False)
         then emit (s1\<lparr>state := STATE_APPLICATION_END\<rparr>) (ApplicationModeStart (params s1))
         else s1\<lparr>state := STATE_NORMAL\<rparr>)
      else s\<lparr>state := STATE_NORMAL\<rparr>)"

text \<open>\<open>data.indexOf(c, i)\<close>\<close>

fun index_in :: "jsstring \<Rightarrow> jschar \<Rightarrow> nat option" where
  "index_in [] c = None"
| "index_in (a # as) c = (if a = c then Some 0 else map_option Suc (index_in as c))"

definition indexOf :: "jsstring \<Rightarrow> jschar \<Rightarrow> nat \<Rightarrow> int" where
  "indexOf d c i = (case index_in (drop i d) c of None \<Rightarrow> - 1 | Some k \<Rightarrow> int (i + k))"

text \<open>\<open>_processDataApplicationEnd(ch, data, i)\<close>\<close>

definition processDataApplicationEnd :: "Terminal \<Rightarrow> jsstring \<Rightarrow> nat \<Rightarrow> Terminal \<times> int" where
  "processDataApplicationEnd s d i =
     (let nextzero = indexOf d 0 i in
      if nextzero = - 1 then (emit s (ApplicationModeData (drop i d)), int (length d) - 1)
      else if nextzero = int i then (emit (s\<lparr>state := STATE_NORMAL\<rparr>) ApplicationModeEnd, int i)
      else (emit s (ApplicationModeData (take (nat nextzero - i) (drop i d))), nextzero - 1))"

text \<open>\<open>_processDataDecHash(ch)\<close>\<close>

definition processDataDecHash :: "Terminal \<Rightarrow> jschar \<Rightarrow> error + Terminal" where
  "processDataDecHash s c =
     and_then (if c = CH (CHR ''8'') then fillScreen s (CH (CHR ''E'')) else Inr s)
       (\<lambda>s1. Inr (s1\<lparr>state := STATE_NORMAL\<rparr>))"

text \<open>The numbers in \<open>this.params\<close>; in the CSI state the parser only pushes numbers.\<close>

fun param_numbers :: "param list \<Rightarrow> int list option" where
  "param_numbers [] = Some []"
| "param_numbers (Num n # ps) = map_option ((#) n) (param_numbers ps)"
| "param_numbers (Str t # ps) = None"

text \<open>The \<open>switch (ch)\<close> of \<open>_processDataCSI\<close> on the final character.\<close>

definition csi_dispatch :: "Terminal \<Rightarrow> jschar \<Rightarrow> error + Terminal" where
  "csi_dispatch s c =
     (case param_numbers (params s) of
        None \<Rightarrow> Inl OutsideModel
      | Some ps \<Rightarrow>
          if c = CH (CHR ''A'') then cursorUp s ps
          else if c = CH (CHR ''B'') then cursorDown s ps
          else if c = CH (CHR ''C'') then cursorForward s ps
          else if c = CH (CHR ''D'') then cursorBackward s ps
          else if c = CH (CHR ''H'') then cursorPos s ps
          else if c = CH (CHR ''J'') then eraseInDisplay s ps
          else if c = CH (CHR ''K'') then eraseInLine s ps
          else if c = CH (CHR ''m'') then
            (if prefix s = [] then Inr (charAttributes s ps) else Inr s)
          else if c = CH (CHR ''n'') then
            (if prefix s = [] then deviceStatus s ps else Inr s)
          else if c = CH (CHR ''@'') then insertChars s ps
          else if c = CH (CHR ''E'') then cursorNextLine s ps
          else if c = CH (CHR ''F'') then cursorPrecedingLine s ps
          else if c = CH (CHR ''G'') then cursorCharAbsolute s ps
          else if c = CH (CHR ''L'') then insertLines s ps
          else if c = CH (CHR ''M'') then deleteLines s ps
          else if c = CH (CHR ''P'') then deleteChars s ps
          else if c = CH (CHR ''X'') then eraseChars s ps
          else if c = 96 then charPosAbsolute s ps
          else if c = CH (CHR ''a'') then HPositionRelative s ps
          else if c = CH (CHR ''c'') then sendDeviceAttributes s ps
          else if c = CH (CHR ''d'') then linePosAbsolute s ps
          else if c = CH (CHR ''e'') then VPositionRelative s ps
          else if c = CH (CHR ''f'') then HVPosition s ps
          else if c = CH (CHR ''h'') then setMode s ps
          else if c = CH (CHR ''l'') then resetMode s ps
          else if c = CH (CHR ''r'') then setScrollRegion s ps
          else if c = CH (CHR ''s'') then Inr (saveCursor s)
          else if c = CH (CHR ''u'') then Inr (restoreCursor s)
          else if c = CH (CHR ''I'') then cursorForwardTab s ps
          else if c = CH (CHR ''S'') then scrollUp s ps
          else if c = CH (CHR ''T'') then
            (if length (params s) < 2 \<and> prefix s = [] then scrollDown s ps else Inr s)
          else if c = CH (CHR ''Z'') then cursorBackwardTab s ps
          else if c = CH (CHR ''b'') then repeatPrecedingCharacter s ps
          else if c = CH (CHR ''g'') then tabClear s ps
          else if c = CH (CHR ''p'') then
            (if prefix s = str ''!'' then softReset s ps else Inr s)
          else Inr s)"

text \<open>\<open>_processDataCSI(ch, i)\<close>\<close>

definition processDataCSI :: "Terminal \<Rightarrow> jschar \<Rightarrow> int \<Rightarrow> error + Terminal \<times> int" where
  "processDataCSI s c i =
     (if c = CH (CHR ''?'') \<or> c = CH (CHR ''>'') \<or> c = CH (CHR ''!'') then
        Inr (s\<lparr>prefix := [c]\<rparr>, i)
      else if c \<ge> 48 \<and> c \<le> 57 then
        and_then (param_digit (currentParam s) c) (\<lambda>p. Inr (s\<lparr>currentParam := p\<rparr>, i))
      else if c = CH (CHR ''$'') \<or> c = 34 \<or> c = SPACE \<or> c = 39 then
        Inr (s\<lparr>postfix := [c]\<rparr>, i)
      else
        (let s1 = s\<lparr>params := params s @ [currentParam s], currentParam := Num 0\<rparr> in
         if c = CH (CHR '';'') then Inr (s1, i)
         else
           and_then (csi_dispatch (s1\<lparr>state := STATE_NORMAL\<rparr>) c)
             (\<lambda>s2. Inr (s2\<lparr>prefix := [], postfix := []\<rparr>, i))))"

text \<open>
  One turn of the loop of \<open>_processWriteData\<close>: the \<open>switch (this.state)\<close> on \<open>data[i]\<close>,
  giving the new state and the value of \<open>i\<close> before the \<open>i++\<close> of the loop, then the
  statement that follows the switch.
\<close>

definition process_char :: "Terminal \<Rightarrow> jsstring \<Rightarrow> nat \<Rightarrow> error + Terminal \<times> int" where
  "process_char s d i =
     (let c = d ! i in
      case state s of
        STATE_NORMAL \<Rightarrow> and_then (process_normal s c) (\<lambda>t. Inr (t, int i))
      | STATE_ESCAPE \<Rightarrow> Inr (processDataEscape s c (int i))
      | STATE_CHARSET \<Rightarrow> Inr (processDataCharset s c (int i))
      | STATE_OSC \<Rightarrow> processDataOSC s c (int i)
      | STATE_CSI \<Rightarrow> processDataCSI s c (int i)
      | STATE_DCS \<Rightarrow> Inr (processDataDCS s c (int i))
      | STATE_IGNORE \<Rightarrow> Inr (processDataIgnore s c (int i))
      | STATE_APPLICATION_START \<Rightarrow> Inr (processDataApplicationStart s c, int i)
      | STATE_APPLICATION_END \<Rightarrow> Inr (processDataApplicationEnd s d i)
      | STATE_DEC_HASH \<Rightarrow> and_then (processDataDecHash s c) (\<lambda>t. Inr (t, int i)))"

definition after_char :: "Terminal \<Rightarrow> Terminal" where
  "after_char s =
     (if y s \<noteq> oldy s
      then (updateRange (updateRange s (oldy s)) (y s))\<lparr>oldy := y s\<rparr>
      else s)"

text \<open>
  A step of the loop that does not move forward is \<open>i--\<close> for ESC /, which leaves the
  state \<open>STATE_ESCAPE\<close> for \<open>STATE_CHARSET\<close>.
\<close>

definition loop_progress :: "Terminal \<Rightarrow> nat \<Rightarrow> Terminal \<Rightarrow> int \<Rightarrow> bool" where
  "loop_progress s i t j =
     (int i \<le> j \<or> (j = int i - 1 \<and> state s = STATE_ESCAPE \<and> state t = STATE_CHARSET))"

function process_loop :: "Terminal \<Rightarrow> jsstring \<Rightarrow> nat \<Rightarrow> error + Terminal" where
  "process_loop s d i =
     (if i < length d then
        (case process_char s d i of
           Inl e \<Rightarrow> Inl e
         | Inr (t, j) \<Rightarrow> process_loop (after_char t) d (nat (j + 1)))
      else Inr s)"
  by pat_completeness auto
termination
proof (relation "measure (\<lambda>(s, d, i). 2 * (length d - i)
                            + (if state s = STATE_ESCAPE then 1 else 0))", goal_cases)
  case 1
  show ?case by simp
next
  case (2 s d i r t j)
  have st: "state (after_char t) = state t"
    by (simp add: after_char_def updateRange_def)
  have idx: "indexOf d 0 i = - 1 \<or> int i \<le> indexOf d 0 i"
    by (simp add: indexOf_def split: option.splits)
  have pc: "process_char s d i = Inr (t, j)"
    using 2 by simp
  have "loop_progress s i t j"
  proof (cases "state s")
    case STATE_NORMAL
    with pc show ?thesis
      by (auto simp: process_char_def loop_progress_def and_then_def Let_def
               split: sum.splits)
  next
    case STATE_ESCAPE
    have "int i \<le> snd (processDataEscape s (d ! i) (int i))
          \<or> (snd (processDataEscape s (d ! i) (int i)) = int i - 1
             \<and> state (fst (processDataEscape s (d ! i) (int i))) = STATE_CHARSET)"
      by (simp add: processDataEscape_def)
    moreover from pc STATE_ESCAPE have "processDataEscape s (d ! i) (int i) = (t, j)"
      by (simp add: process_char_def Let_def)
    ultimately show ?thesis
      by (simp add: loop_progress_def STATE_ESCAPE)
  next
    case STATE_CSI
    with pc show ?thesis
      by (auto simp: process_char_def loop_progress_def processDataCSI_def and_then_def
                     Let_def split: if_splits sum.splits)
  next
    case STATE_OSC
    with pc show ?thesis
      by (auto simp: process_char_def loop_progress_def processDataOSC_def and_then_def
                     Let_def split: if_splits sum.splits)
  next
    case STATE_CHARSET
    have "int i \<le> snd (processDataCharset s (d ! i) (int i))"
      by (simp add: processDataCharset_def Let_def)
    moreover from pc STATE_CHARSET have "processDataCharset s (d ! i) (int i) = (t, j)"
      by (simp add: process_char_def Let_def)
    ultimately show ?thesis
      by (simp add: loop_progress_def)
  next
    case STATE_DCS
    have "int i \<le> snd (processDataDCS s (d ! i) (int i))"
      by (simp add: processDataDCS_def Let_def)
    moreover from pc STATE_DCS have "processDataDCS s (d ! i) (int i) = (t, j)"
      by (simp add: process_char_def Let_def)
    ultimately show ?thesis
      by (simp add: loop_progress_def)
  next
    case STATE_IGNORE
    have "int i \<le> snd (processDataIgnore s (d ! i) (int i))"
      by (simp add: processDataIgnore_def)
    moreover from pc STATE_IGNORE have "processDataIgnore s (d ! i) (int i) = (t, j)"
      by (simp add: process_char_def Let_def)
    ultimately show ?thesis
      by (simp add: loop_progress_def)
  next
    case STATE_APPLICATION_START
    with pc show ?thesis
      by (auto simp: process_char_def loop_progress_def Let_def)
  next
    case STATE_APPLICATION_END
    have "int i \<le> snd (processDataApplicationEnd s d i)"
      using idx \<open>i < length d\<close> by (auto simp: processDataApplicationEnd_def Let_def)
    moreover from pc STATE_APPLICATION_END have "processDataApplicationEnd s d i = (t, j)"
      by (simp add: process_char_def Let_def)
    ultimately show ?thesis
      by (simp add: loop_progress_def)
  next
    case STATE_DEC_HASH
    with pc show ?thesis
      by (auto simp: process_char_def loop_progress_def and_then_def Let_def
               split: sum.splits)
  qed
  with 2 st show ?case
    by (auto simp: loop_progress_def)
qed

declare process_loop.simps [simp del]

text \<open>
  \<open>_processWriteData(data)\<close>: the statements before the loop (\<open>write_prologue\<close>), the
  loop, and \<open>this.updateRange(this.y)\<close>.
\<close>

definition write_prologue :: "Terminal \<Rightarrow> Terminal" where
  "write_prologue s =
     (let s1 = (if ybase s \<noteq> ydisp s then maxRange (s\<lparr>ydisp := ybase s\<rparr>) else s)
      in s1\<lparr>oldy := y s1\<rparr>)"

definition processWriteData :: "Terminal \<Rightarrow> jsstring \<Rightarrow> error + Terminal" where
  "processWriteData s d =
     and_then (process_loop (write_prologue s) d 0) (\<lambda>s3. Inr (updateRange s3 (y s3)))"

text \<open>
  \<open>write(data)\<close>, here \<open>write_data\<close>, queues the data; the timer it sets calls \<open>_processOneWriteChunk\<close>, which
  takes at most \<open>MAX_PROCESS_WRITE_SIZE\<close> characters from the first buffer and says whether
  buffers remain.
\<close>

definition write_data :: "Terminal \<Rightarrow> jsstring \<Rightarrow> Terminal" where
  "write_data s d = s\<lparr>writeBuffers := writeBuffers s @ [d]\<rparr>"

definition processOneWriteChunk :: "Terminal \<Rightarrow> error + Terminal \<times> bool" where
  "processOneWriteChunk s =
     (case writeBuffers s of
        [] \<Rightarrow> Inr (s, False)
      | chunk # rest \<Rightarrow>
          (let n = nat MAX_PROCESS_WRITE_SIZE;
               s1 = (if int (length chunk) \<le> MAX_PROCESS_WRITE_SIZE
                     then s\<lparr>writeBuffers := rest\<rparr>
                     else s\<lparr>writeBuffers := drop n chunk # rest\<rparr>);
               c = (if int (length chunk) \<le> MAX_PROCESS_WRITE_SIZE then chunk
                    else take n chunk)
           in and_then (processWriteData s1 c) (\<lambda>s2. Inr (s2, writeBuffers s2 \<noteq> []))))"

text \<open>
  Several calls of \<open>write\<close>, each one taken by the timer as one chunk (none is longer
  than \<open>MAX_PROCESS_WRITE_SIZE\<close>): \<open>_processWriteData\<close> runs on each in turn.
\<close>

fun process_chunks :: "Terminal \<Rightarrow> jsstring list \<Rightarrow> error + Terminal" where
  "process_chunks s [] = Inr s"
| "process_chunks s (d # ds) = and_then (processWriteData s d) (\<lambda>t. process_chunks t ds)"

text \<open>
  Two states used to state what a control sequence does.  \<open>csi_entry s pre ps\<close> is the
  state in which the parser calls the operation of a CSI sequence that it read from the
  start of a chunk, in the state \<open>s\<close>: the prefix is \<open>pre\<close>, the parameters are \<open>ps\<close>.
  \<open>csi_exit t\<close> is the state in which \<open>_processWriteData\<close> returns when that operation,
  called for the last character of the chunk, left the state \<open>t\<close>.
\<close>

definition csi_entry :: "Terminal \<Rightarrow> jsstring \<Rightarrow> param list \<Rightarrow> Terminal" where
  "csi_entry s pre ps =
     (write_prologue s)\<lparr>prefix := pre, params := ps, currentParam := Num 0,
                         state := STATE_NORMAL\<rparr>"

text \<open>The same for a sequence without a prefix, read when \<open>prefix\<close> is empty.\<close>

definition csi_entry0 :: "Terminal \<Rightarrow> param list \<Rightarrow> Terminal" where
  "csi_entry0 s ps =
     (write_prologue s)\<lparr>params := ps, currentParam := Num 0, state := STATE_NORMAL\<rparr>"

definition csi_exit :: "Terminal \<Rightarrow> Terminal" where
  "csi_exit t =
     (let u = after_char (t\<lparr>prefix := [], postfix := []\<rparr>) in updateRange u (y u))"

section \<open>Properties of the engine\<close>

subsection \<open>Running the parser on a state that is not known\<close>

lemmas parser_defs = processWriteData_def process_char_def process_normal_def
  processDataEscape_def processDataCSI_def csi_dispatch_def and_then_def after_char_def
  param_digit_def updateRange_def maxRange_def write_prologue_def str_def ESC_def SPACE_def
  Let_def

text \<open>
  The same without the definitions of the range of rows to refresh, for operations whose
  result is not known: the loop is unrolled only at an index that is known.
\<close>

lemma process_loop_unroll:
  "i < length d \<Longrightarrow> process_loop s d i =
     (case process_char s d i of
        Inl e \<Rightarrow> Inl e
      | Inr (t, j) \<Rightarrow> process_loop (after_char t) d (nat (j + 1)))"
  "\<not> i < length d \<Longrightarrow> process_loop s d i = Inr s"
  by (subst process_loop.simps, simp)+

lemma after_char_same: "y s = oldy s \<Longrightarrow> after_char s = s"
  by (simp add: after_char_def)

lemmas run_defs = processWriteData_def process_char_def process_normal_def
  processDataEscape_def processDataCSI_def csi_dispatch_def and_then_def
  param_digit_def str_def ESC_def SPACE_def Let_def process_loop_unroll after_char_same
  csi_entry_def csi_entry0_def csi_exit_def


lemma fresh_fields:
  "state (new_Terminal opts) = STATE_NORMAL" "prefix (new_Terminal opts) = []"
  "queue (new_Terminal opts) = []" "termName (new_Terminal opts) = opt_termName opts"
  "x (new_Terminal opts) = 0" "y (new_Terminal opts) = 0"
  "cols (new_Terminal opts) = 80" "rows (new_Terminal opts) = 24"
  "ybase (new_Terminal opts) = 0" "ydisp (new_Terminal opts) = 0"
  "normal (new_Terminal opts) = None"
  "curAttr (new_Terminal opts) = default_attr" "defAttr (new_Terminal opts) = default_attr"
  "scrollTop (new_Terminal opts) = 0" "scrollBottom (new_Terminal opts) = 23"
  "physicalScroll (new_Terminal opts) = opt_physicalScroll opts"
  "glevel (new_Terminal opts) = 0" "charset (new_Terminal opts) = None"
  "oldy (new_Terminal opts) = 0" "insertMode (new_Terminal opts) = False"
  "wraparoundMode (new_Terminal opts) = False"
  "convertEol (new_Terminal opts) = opt_convertEol opts"
  "scrollback (new_Terminal opts) = opt_scrollback opts"
  by (simp_all add: new_Terminal_def resetVariables_def setupStops_def Let_def)

lemma fresh_lines:
  "\<not> opt_physicalScroll opts \<Longrightarrow>
   lines (new_Terminal opts) = replicate 24 (replicate 80 (Some (default_attr, SPACE)))"
  by (simp add: new_Terminal_def resetVariables_def setupStops_def Let_def blankLine_def)

lemma default_attr_value: "default_attr = 131840"
  by (simp add: default_attr_def js_or_def js_shl_def to_int32_def)

subsection \<open>What refresh, showCursor and resize leave as it is\<close>

lemma updateRange_fields [simp]:
  "cols (updateRange s v) = cols s" "rows (updateRange s v) = rows s"
  "state (updateRange s v) = state s" "ybase (updateRange s v) = ybase s"
  "ydisp (updateRange s v) = ydisp s" "x (updateRange s v) = x s" "y (updateRange s v) = y s"
  "savedX (updateRange s v) = savedX s" "savedY (updateRange s v) = savedY s"
  "oldy (updateRange s v) = oldy s" "cursorState (updateRange s v) = cursorState s"
  "cursorHidden (updateRange s v) = cursorHidden s" "queue (updateRange s v) = queue s"
  "scrollTop (updateRange s v) = scrollTop s" "scrollBottom (updateRange s v) = scrollBottom s"
  "applicationKeypad (updateRange s v) = applicationKeypad s"
  "applicationCursor (updateRange s v) = applicationCursor s"
  "originMode (updateRange s v) = originMode s" "insertMode (updateRange s v) = insertMode s"
  "wraparoundMode (updateRange s v) = wraparoundMode s" "normal (updateRange s v) = normal s"
  "charset (updateRange s v) = charset s" "gcharset (updateRange s v) = gcharset s"
  "glevel (updateRange s v) = glevel s" "charsets (updateRange s v) = charsets s"
  "defAttr (updateRange s v) = defAttr s" "curAttr (updateRange s v) = curAttr s"
  "params (updateRange s v) = params s" "currentParam (updateRange s v) = currentParam s"
  "prefix (updateRange s v) = prefix s" "postfix (updateRange s v) = postfix s"
  "lines (updateRange s v) = lines s" "convertEol (updateRange s v) = convertEol s"
  "termName (updateRange s v) = termName s" "scrollback (updateRange s v) = scrollback s"
  "physicalScroll (updateRange s v) = physicalScroll s"
  "applicationModeCookie (updateRange s v) = applicationModeCookie s"
  "writeBuffers (updateRange s v) = writeBuffers s"
  "scrollbackBuffer (updateRange s v) = scrollbackBuffer s" "tabs (updateRange s v) = tabs s"
  "sendFocus (updateRange s v) = sendFocus s" "utfMouse (updateRange s v) = utfMouse s"
  "urxvtMouse (updateRange s v) = urxvtMouse s" "sgrMouse (updateRange s v) = sgrMouse s"
  "vt200Mouse (updateRange s v) = vt200Mouse s" "normalMouse (updateRange s v) = normalMouse s"
  "x10Mouse (updateRange s v) = x10Mouse s" "mouseEvents (updateRange s v) = mouseEvents s"
  "savedCols (updateRange s v) = savedCols s" "title (updateRange s v) = title s"
  "emitted (updateRange s v) = emitted s"
  by (simp_all add: updateRange_def)

lemma write_prologue_fields [simp]:
  "cols (write_prologue s) = cols s" "rows (write_prologue s) = rows s"
  "state (write_prologue s) = state s" "ybase (write_prologue s) = ybase s"
  "x (write_prologue s) = x s" "y (write_prologue s) = y s"
  "savedX (write_prologue s) = savedX s" "savedY (write_prologue s) = savedY s"
  "cursorState (write_prologue s) = cursorState s"
  "cursorHidden (write_prologue s) = cursorHidden s" "queue (write_prologue s) = queue s"
  "scrollTop (write_prologue s) = scrollTop s"
  "scrollBottom (write_prologue s) = scrollBottom s"
  "applicationKeypad (write_prologue s) = applicationKeypad s"
  "applicationCursor (write_prologue s) = applicationCursor s"
  "originMode (write_prologue s) = originMode s" "insertMode (write_prologue s) = insertMode s"
  "wraparoundMode (write_prologue s) = wraparoundMode s" "normal (write_prologue s) = normal s"
  "charset (write_prologue s) = charset s" "gcharset (write_prologue s) = gcharset s"
  "glevel (write_prologue s) = glevel s" "charsets (write_prologue s) = charsets s"
  "defAttr (write_prologue s) = defAttr s" "curAttr (write_prologue s) = curAttr s"
  "params (write_prologue s) = params s" "currentParam (write_prologue s) = currentParam s"
  "prefix (write_prologue s) = prefix s" "postfix (write_prologue s) = postfix s"
  "lines (write_prologue s) = lines s" "convertEol (write_prologue s) = convertEol s"
  "termName (write_prologue s) = termName s" "scrollback (write_prologue s) = scrollback s"
  "physicalScroll (write_prologue s) = physicalScroll s"
  "applicationModeCookie (write_prologue s) = applicationModeCookie s"
  "writeBuffers (write_prologue s) = writeBuffers s"
  "scrollbackBuffer (write_prologue s) = scrollbackBuffer s" "tabs (write_prologue s) = tabs s"
  "sendFocus (write_prologue s) = sendFocus s" "utfMouse (write_prologue s) = utfMouse s"
  "urxvtMouse (write_prologue s) = urxvtMouse s" "sgrMouse (write_prologue s) = sgrMouse s"
  "vt200Mouse (write_prologue s) = vt200Mouse s"
  "normalMouse (write_prologue s) = normalMouse s" "x10Mouse (write_prologue s) = x10Mouse s"
  "mouseEvents (write_prologue s) = mouseEvents s" "savedCols (write_prologue s) = savedCols s"
  "title (write_prologue s) = title s" "emitted (write_prologue s) = emitted s"
  by (simp_all add: write_prologue_def maxRange_def Let_def)

lemma write_prologue_oldy [simp]: "oldy (write_prologue s) = y s"
  by (simp add: write_prologue_def maxRange_def Let_def)

lemma write_prologue_ydisp [simp]: "ydisp (write_prologue s) = ybase s"
  by (simp add: write_prologue_def maxRange_def Let_def)

lemma after_char_fields [simp]:
  "cols (after_char s) = cols s" "rows (after_char s) = rows s"
  "state (after_char s) = state s" "ybase (after_char s) = ybase s"
  "ydisp (after_char s) = ydisp s" "x (after_char s) = x s" "y (after_char s) = y s"
  "savedX (after_char s) = savedX s" "savedY (after_char s) = savedY s"
  "cursorState (after_char s) = cursorState s" "cursorHidden (after_char s) = cursorHidden s"
  "queue (after_char s) = queue s" "scrollTop (after_char s) = scrollTop s"
  "scrollBottom (after_char s) = scrollBottom s"
  "applicationKeypad (after_char s) = applicationKeypad s"
  "applicationCursor (after_char s) = applicationCursor s"
  "originMode (after_char s) = originMode s" "insertMode (after_char s) = insertMode s"
  "wraparoundMode (after_char s) = wraparoundMode s" "normal (after_char s) = normal s"
  "charset (after_char s) = charset s" "gcharset (after_char s) = gcharset s"
  "glevel (after_char s) = glevel s" "charsets (after_char s) = charsets s"
  "defAttr (after_char s) = defAttr s" "curAttr (after_char s) = curAttr s"
  "params (after_char s) = params s" "currentParam (after_char s) = currentParam s"
  "prefix (after_char s) = prefix s" "postfix (after_char s) = postfix s"
  "lines (after_char s) = lines s" "convertEol (after_char s) = convertEol s"
  "termName (after_char s) = termName s" "scrollback (after_char s) = scrollback s"
  "physicalScroll (after_char s) = physicalScroll s"
  "applicationModeCookie (after_char s) = applicationModeCookie s"
  "writeBuffers (after_char s) = writeBuffers s"
  "scrollbackBuffer (after_char s) = scrollbackBuffer s" "tabs (after_char s) = tabs s"
  "sendFocus (after_char s) = sendFocus s" "utfMouse (after_char s) = utfMouse s"
  "urxvtMouse (after_char s) = urxvtMouse s" "sgrMouse (after_char s) = sgrMouse s"
  "vt200Mouse (after_char s) = vt200Mouse s" "normalMouse (after_char s) = normalMouse s"
  "x10Mouse (after_char s) = x10Mouse s" "mouseEvents (after_char s) = mouseEvents s"
  "savedCols (after_char s) = savedCols s" "title (after_char s) = title s"
  "emitted (after_char s) = emitted s"
  by (simp_all add: after_char_def updateRange_def)

lemma after_char_oldy [simp]: "oldy (after_char s) = y s"
  by (simp add: after_char_def updateRange_def)

lemma refresh_loop_frame: "refresh_loop s v e = s\<lparr>lines := lines (refresh_loop s v e)\<rparr>"
proof (induction s v e rule: refresh_loop.induct)
  case (1 s v e)
  show ?case
  proof (cases "v \<le> e")
    case True
    have "refresh_loop s v e = refresh_loop (getRow s (v + ydisp s)) (v + 1) e"
      using True by (subst refresh_loop.simps) simp
    also have "\<dots> = (getRow s (v + ydisp s))\<lparr>lines := lines (refresh_loop (getRow s (v + ydisp s)) (v + 1) e)\<rparr>"
      using 1[OF True] .
    also have "\<dots> = s\<lparr>lines := lines (refresh_loop (getRow s (v + ydisp s)) (v + 1) e)\<rparr>"
      by (simp add: getRow_def)
    finally show ?thesis
      using True by (subst (2) refresh_loop.simps) simp
  next
    case False
    then show ?thesis by (subst (1 2) refresh_loop.simps) simp
  qed
qed

lemma refresh_frame: "refresh s v e = s\<lparr>lines := lines (refresh s v e)\<rparr>"
  unfolding refresh_def Let_def by (rule refresh_loop_frame)

lemma showCursor_frame:
  "showCursor s = s\<lparr>cursorState := True, lines := lines (showCursor s)\<rparr>"
proof (cases "cursorState s")
  case True
  then show ?thesis by (simp add: showCursor_def)
next
  case False
  have "refresh (s\<lparr>cursorState := True\<rparr>) (y s) (y s)
        = s\<lparr>cursorState := True, lines := lines (refresh (s\<lparr>cursorState := True\<rparr>) (y s) (y s))\<rparr>"
    by (subst refresh_frame) simp
  with False show ?thesis by (simp add: showCursor_def Let_def)
qed

lemma refresh_fields [simp]:
  "cols (refresh s v e) = cols s" "rows (refresh s v e) = rows s"
  "state (refresh s v e) = state s" "refreshStart (refresh s v e) = refreshStart s"
  "refreshEnd (refresh s v e) = refreshEnd s" "ybase (refresh s v e) = ybase s"
  "ydisp (refresh s v e) = ydisp s" "x (refresh s v e) = x s" "y (refresh s v e) = y s"
  "savedX (refresh s v e) = savedX s" "savedY (refresh s v e) = savedY s"
  "oldy (refresh s v e) = oldy s" "cursorState (refresh s v e) = cursorState s"
  "cursorHidden (refresh s v e) = cursorHidden s" "queue (refresh s v e) = queue s"
  "scrollTop (refresh s v e) = scrollTop s" "scrollBottom (refresh s v e) = scrollBottom s"
  "applicationKeypad (refresh s v e) = applicationKeypad s"
  "applicationCursor (refresh s v e) = applicationCursor s"
  "originMode (refresh s v e) = originMode s" "insertMode (refresh s v e) = insertMode s"
  "wraparoundMode (refresh s v e) = wraparoundMode s" "normal (refresh s v e) = normal s"
  "charset (refresh s v e) = charset s" "gcharset (refresh s v e) = gcharset s"
  "glevel (refresh s v e) = glevel s" "charsets (refresh s v e) = charsets s"
  "defAttr (refresh s v e) = defAttr s" "curAttr (refresh s v e) = curAttr s"
  "params (refresh s v e) = params s" "currentParam (refresh s v e) = currentParam s"
  "prefix (refresh s v e) = prefix s" "postfix (refresh s v e) = postfix s"
  "convertEol (refresh s v e) = convertEol s" "termName (refresh s v e) = termName s"
  "scrollback (refresh s v e) = scrollback s"
  "physicalScroll (refresh s v e) = physicalScroll s"
  "applicationModeCookie (refresh s v e) = applicationModeCookie s"
  "writeBuffers (refresh s v e) = writeBuffers s"
  "scrollbackBuffer (refresh s v e) = scrollbackBuffer s" "tabs (refresh s v e) = tabs s"
  "sendFocus (refresh s v e) = sendFocus s" "utfMouse (refresh s v e) = utfMouse s"
  "urxvtMouse (refresh s v e) = urxvtMouse s" "sgrMouse (refresh s v e) = sgrMouse s"
  "vt200Mouse (refresh s v e) = vt200Mouse s" "normalMouse (refresh s v e) = normalMouse s"
  "x10Mouse (refresh s v e) = x10Mouse s" "mouseEvents (refresh s v e) = mouseEvents s"
  "savedCols (refresh s v e) = savedCols s" "title (refresh s v e) = title s"
  "emitted (refresh s v e) = emitted s"
  by ((subst refresh_frame, simp)+)

lemma showCursor_fields [simp]:
  "cols (showCursor s) = cols s" "rows (showCursor s) = rows s"
  "state (showCursor s) = state s" "refreshStart (showCursor s) = refreshStart s"
  "refreshEnd (showCursor s) = refreshEnd s" "ybase (showCursor s) = ybase s"
  "ydisp (showCursor s) = ydisp s" "x (showCursor s) = x s" "y (showCursor s) = y s"
  "savedX (showCursor s) = savedX s" "savedY (showCursor s) = savedY s"
  "oldy (showCursor s) = oldy s" "cursorHidden (showCursor s) = cursorHidden s"
  "queue (showCursor s) = queue s" "scrollTop (showCursor s) = scrollTop s"
  "scrollBottom (showCursor s) = scrollBottom s"
  "applicationKeypad (showCursor s) = applicationKeypad s"
  "applicationCursor (showCursor s) = applicationCursor s"
  "originMode (showCursor s) = originMode s" "insertMode (showCursor s) = insertMode s"
  "wraparoundMode (showCursor s) = wraparoundMode s" "normal (showCursor s) = normal s"
  "charset (showCursor s) = charset s" "gcharset (showCursor s) = gcharset s"
  "glevel (showCursor s) = glevel s" "charsets (showCursor s) = charsets s"
  "defAttr (showCursor s) = defAttr s" "curAttr (showCursor s) = curAttr s"
  "params (showCursor s) = params s" "currentParam (showCursor s) = currentParam s"
  "prefix (showCursor s) = prefix s" "postfix (showCursor s) = postfix s"
  "convertEol (showCursor s) = convertEol s" "termName (showCursor s) = termName s"
  "scrollback (showCursor s) = scrollback s" "physicalScroll (showCursor s) = physicalScroll s"
  "applicationModeCookie (showCursor s) = applicationModeCookie s"
  "writeBuffers (showCursor s) = writeBuffers s"
  "scrollbackBuffer (showCursor s) = scrollbackBuffer s" "tabs (showCursor s) = tabs s"
  "sendFocus (showCursor s) = sendFocus s" "utfMouse (showCursor s) = utfMouse s"
  "urxvtMouse (showCursor s) = urxvtMouse s" "sgrMouse (showCursor s) = sgrMouse s"
  "vt200Mouse (showCursor s) = vt200Mouse s" "normalMouse (showCursor s) = normalMouse s"
  "x10Mouse (showCursor s) = x10Mouse s" "mouseEvents (showCursor s) = mouseEvents s"
  "savedCols (showCursor s) = savedCols s" "title (showCursor s) = title s"
  "emitted (showCursor s) = emitted s"
  by ((subst showCursor_frame, simp)+)

lemma resize_add_rows_frame:
  "resize_add_rows n r s = s\<lparr>lines := lines (resize_add_rows n r s)\<rparr>"
proof (induction n arbitrary: s)
  case 0
  show ?case by simp
next
  case (Suc n)
  show ?case
    by (simp, subst Suc.IH, subst (2) Suc.IH, simp)
qed

lemma resize_add_rows_fields [simp]:
  "cols (resize_add_rows n r s) = cols s" "rows (resize_add_rows n r s) = rows s"
  "state (resize_add_rows n r s) = state s"
  "refreshStart (resize_add_rows n r s) = refreshStart s"
  "refreshEnd (resize_add_rows n r s) = refreshEnd s" "ybase (resize_add_rows n r s) = ybase s"
  "ydisp (resize_add_rows n r s) = ydisp s" "x (resize_add_rows n r s) = x s"
  "y (resize_add_rows n r s) = y s" "savedX (resize_add_rows n r s) = savedX s"
  "savedY (resize_add_rows n r s) = savedY s" "oldy (resize_add_rows n r s) = oldy s"
  "cursorState (resize_add_rows n r s) = cursorState s"
  "cursorHidden (resize_add_rows n r s) = cursorHidden s"
  "queue (resize_add_rows n r s) = queue s" "scrollTop (resize_add_rows n r s) = scrollTop s"
  "scrollBottom (resize_add_rows n r s) = scrollBottom s"
  "applicationKeypad (resize_add_rows n r s) = applicationKeypad s"
  "applicationCursor (resize_add_rows n r s) = applicationCursor s"
  "originMode (resize_add_rows n r s) = originMode s"
  "insertMode (resize_add_rows n r s) = insertMode s"
  "wraparoundMode (resize_add_rows n r s) = wraparoundMode s"
  "normal (resize_add_rows n r s) = normal s" "charset (resize_add_rows n r s) = charset s"
  "gcharset (resize_add_rows n r s) = gcharset s" "glevel (resize_add_rows n r s) = glevel s"
  "charsets (resize_add_rows n r s) = charsets s" "defAttr (resize_add_rows n r s) = defAttr s"
  "curAttr (resize_add_rows n r s) = curAttr s" "params (resize_add_rows n r s) = params s"
  "currentParam (resize_add_rows n r s) = currentParam s"
  "prefix (resize_add_rows n r s) = prefix s" "postfix (resize_add_rows n r s) = postfix s"
  "convertEol (resize_add_rows n r s) = convertEol s"
  "termName (resize_add_rows n r s) = termName s"
  "scrollback (resize_add_rows n r s) = scrollback s"
  "physicalScroll (resize_add_rows n r s) = physicalScroll s"
  "applicationModeCookie (resize_add_rows n r s) = applicationModeCookie s"
  "writeBuffers (resize_add_rows n r s) = writeBuffers s"
  "scrollbackBuffer (resize_add_rows n r s) = scrollbackBuffer s"
  "tabs (resize_add_rows n r s) = tabs s" "sendFocus (resize_add_rows n r s) = sendFocus s"
  "utfMouse (resize_add_rows n r s) = utfMouse s"
  "urxvtMouse (resize_add_rows n r s) = urxvtMouse s"
  "sgrMouse (resize_add_rows n r s) = sgrMouse s"
  "vt200Mouse (resize_add_rows n r s) = vt200Mouse s"
  "normalMouse (resize_add_rows n r s) = normalMouse s"
  "x10Mouse (resize_add_rows n r s) = x10Mouse s"
  "mouseEvents (resize_add_rows n r s) = mouseEvents s"
  "savedCols (resize_add_rows n r s) = savedCols s" "title (resize_add_rows n r s) = title s"
  "emitted (resize_add_rows n r s) = emitted s"
  by ((subst resize_add_rows_frame, simp)+)

lemma resize_cols_fields [simp]:
  "rows (resize_cols s c) = rows s" "state (resize_cols s c) = state s"
  "refreshStart (resize_cols s c) = refreshStart s"
  "refreshEnd (resize_cols s c) = refreshEnd s" "ybase (resize_cols s c) = ybase s"
  "ydisp (resize_cols s c) = ydisp s" "x (resize_cols s c) = x s" "y (resize_cols s c) = y s"
  "savedX (resize_cols s c) = savedX s" "savedY (resize_cols s c) = savedY s"
  "oldy (resize_cols s c) = oldy s" "cursorState (resize_cols s c) = cursorState s"
  "cursorHidden (resize_cols s c) = cursorHidden s" "queue (resize_cols s c) = queue s"
  "scrollTop (resize_cols s c) = scrollTop s" "scrollBottom (resize_cols s c) = scrollBottom s"
  "applicationKeypad (resize_cols s c) = applicationKeypad s"
  "applicationCursor (resize_cols s c) = applicationCursor s"
  "originMode (resize_cols s c) = originMode s" "insertMode (resize_cols s c) = insertMode s"
  "wraparoundMode (resize_cols s c) = wraparoundMode s" "normal (resize_cols s c) = normal s"
  "charset (resize_cols s c) = charset s" "gcharset (resize_cols s c) = gcharset s"
  "glevel (resize_cols s c) = glevel s" "charsets (resize_cols s c) = charsets s"
  "defAttr (resize_cols s c) = defAttr s" "curAttr (resize_cols s c) = curAttr s"
  "params (resize_cols s c) = params s" "currentParam (resize_cols s c) = currentParam s"
  "prefix (resize_cols s c) = prefix s" "postfix (resize_cols s c) = postfix s"
  "convertEol (resize_cols s c) = convertEol s" "termName (resize_cols s c) = termName s"
  "scrollback (resize_cols s c) = scrollback s"
  "physicalScroll (resize_cols s c) = physicalScroll s"
  "applicationModeCookie (resize_cols s c) = applicationModeCookie s"
  "writeBuffers (resize_cols s c) = writeBuffers s"
  "scrollbackBuffer (resize_cols s c) = scrollbackBuffer s"
  "sendFocus (resize_cols s c) = sendFocus s" "utfMouse (resize_cols s c) = utfMouse s"
  "urxvtMouse (resize_cols s c) = urxvtMouse s" "sgrMouse (resize_cols s c) = sgrMouse s"
  "vt200Mouse (resize_cols s c) = vt200Mouse s" "normalMouse (resize_cols s c) = normalMouse s"
  "x10Mouse (resize_cols s c) = x10Mouse s" "mouseEvents (resize_cols s c) = mouseEvents s"
  "savedCols (resize_cols s c) = savedCols s" "title (resize_cols s c) = title s"
  "emitted (resize_cols s c) = emitted s"
  by (simp_all add: resize_cols_def setupStops_def Let_def)

lemma resize_cols_cols [simp]: "cols (resize_cols s c) = c"
  by (simp add: resize_cols_def)

lemma resize_rows_fields [simp]:
  "cols (resize_rows s r) = cols s" "rows (resize_rows s r) = rows s"
  "state (resize_rows s r) = state s" "refreshStart (resize_rows s r) = refreshStart s"
  "refreshEnd (resize_rows s r) = refreshEnd s" "ybase (resize_rows s r) = ybase s"
  "ydisp (resize_rows s r) = ydisp s" "x (resize_rows s r) = x s" "y (resize_rows s r) = y s"
  "savedX (resize_rows s r) = savedX s" "savedY (resize_rows s r) = savedY s"
  "oldy (resize_rows s r) = oldy s" "cursorState (resize_rows s r) = cursorState s"
  "cursorHidden (resize_rows s r) = cursorHidden s" "queue (resize_rows s r) = queue s"
  "scrollTop (resize_rows s r) = scrollTop s" "scrollBottom (resize_rows s r) = scrollBottom s"
  "applicationKeypad (resize_rows s r) = applicationKeypad s"
  "applicationCursor (resize_rows s r) = applicationCursor s"
  "originMode (resize_rows s r) = originMode s" "insertMode (resize_rows s r) = insertMode s"
  "wraparoundMode (resize_rows s r) = wraparoundMode s" "normal (resize_rows s r) = normal s"
  "charset (resize_rows s r) = charset s" "gcharset (resize_rows s r) = gcharset s"
  "glevel (resize_rows s r) = glevel s" "charsets (resize_rows s r) = charsets s"
  "defAttr (resize_rows s r) = defAttr s" "curAttr (resize_rows s r) = curAttr s"
  "params (resize_rows s r) = params s" "currentParam (resize_rows s r) = currentParam s"
  "prefix (resize_rows s r) = prefix s" "postfix (resize_rows s r) = postfix s"
  "convertEol (resize_rows s r) = convertEol s" "termName (resize_rows s r) = termName s"
  "scrollback (resize_rows s r) = scrollback s"
  "physicalScroll (resize_rows s r) = physicalScroll s"
  "applicationModeCookie (resize_rows s r) = applicationModeCookie s"
  "writeBuffers (resize_rows s r) = writeBuffers s"
  "scrollbackBuffer (resize_rows s r) = scrollbackBuffer s" "tabs (resize_rows s r) = tabs s"
  "sendFocus (resize_rows s r) = sendFocus s" "utfMouse (resize_rows s r) = utfMouse s"
  "urxvtMouse (resize_rows s r) = urxvtMouse s" "sgrMouse (resize_rows s r) = sgrMouse s"
  "vt200Mouse (resize_rows s r) = vt200Mouse s" "normalMouse (resize_rows s r) = normalMouse s"
  "x10Mouse (resize_rows s r) = x10Mouse s" "mouseEvents (resize_rows s r) = mouseEvents s"
  "savedCols (resize_rows s r) = savedCols s" "title (resize_rows s r) = title s"
  "emitted (resize_rows s r) = emitted s"
  by (simp_all add: resize_rows_def)

lemma resize_cursor_fields [simp]:
  "cols (resize_cursor s c r) = cols s" "rows (resize_cursor s c r) = rows s"
  "state (resize_cursor s c r) = state s" "refreshStart (resize_cursor s c r) = refreshStart s"
  "refreshEnd (resize_cursor s c r) = refreshEnd s" "ybase (resize_cursor s c r) = ybase s"
  "ydisp (resize_cursor s c r) = ydisp s" "savedX (resize_cursor s c r) = savedX s"
  "savedY (resize_cursor s c r) = savedY s" "oldy (resize_cursor s c r) = oldy s"
  "cursorState (resize_cursor s c r) = cursorState s"
  "cursorHidden (resize_cursor s c r) = cursorHidden s" "queue (resize_cursor s c r) = queue s"
  "scrollTop (resize_cursor s c r) = scrollTop s"
  "scrollBottom (resize_cursor s c r) = scrollBottom s"
  "applicationKeypad (resize_cursor s c r) = applicationKeypad s"
  "applicationCursor (resize_cursor s c r) = applicationCursor s"
  "originMode (resize_cursor s c r) = originMode s"
  "insertMode (resize_cursor s c r) = insertMode s"
  "wraparoundMode (resize_cursor s c r) = wraparoundMode s"
  "normal (resize_cursor s c r) = normal s" "charset (resize_cursor s c r) = charset s"
  "gcharset (resize_cursor s c r) = gcharset s" "glevel (resize_cursor s c r) = glevel s"
  "charsets (resize_cursor s c r) = charsets s" "defAttr (resize_cursor s c r) = defAttr s"
  "curAttr (resize_cursor s c r) = curAttr s" "params (resize_cursor s c r) = params s"
  "currentParam (resize_cursor s c r) = currentParam s"
  "prefix (resize_cursor s c r) = prefix s" "postfix (resize_cursor s c r) = postfix s"
  "lines (resize_cursor s c r) = lines s" "convertEol (resize_cursor s c r) = convertEol s"
  "termName (resize_cursor s c r) = termName s"
  "scrollback (resize_cursor s c r) = scrollback s"
  "physicalScroll (resize_cursor s c r) = physicalScroll s"
  "applicationModeCookie (resize_cursor s c r) = applicationModeCookie s"
  "writeBuffers (resize_cursor s c r) = writeBuffers s"
  "scrollbackBuffer (resize_cursor s c r) = scrollbackBuffer s"
  "tabs (resize_cursor s c r) = tabs s" "sendFocus (resize_cursor s c r) = sendFocus s"
  "utfMouse (resize_cursor s c r) = utfMouse s"
  "urxvtMouse (resize_cursor s c r) = urxvtMouse s"
  "sgrMouse (resize_cursor s c r) = sgrMouse s"
  "vt200Mouse (resize_cursor s c r) = vt200Mouse s"
  "normalMouse (resize_cursor s c r) = normalMouse s"
  "x10Mouse (resize_cursor s c r) = x10Mouse s"
  "mouseEvents (resize_cursor s c r) = mouseEvents s"
  "savedCols (resize_cursor s c r) = savedCols s" "title (resize_cursor s c r) = title s"
  "emitted (resize_cursor s c r) = emitted s"
  by (simp_all add: resize_cursor_def Let_def)

lemma resize_result:
  assumes "\<not> (max r 1 < rows s \<and> max r 1 + ybase s < 0)"
  shows "\<exists>t. resize s c r = Inr t \<and> scrollTop t = 0 \<and> scrollBottom t = max r 1 - 1
           \<and> rows t = max r 1 \<and> cols t = max c 1 \<and> normal t = None
           \<and> state t = state s \<and> prefix t = prefix s \<and> postfix t = postfix s
           \<and> ybase t = ybase s \<and> ydisp t = ydisp s \<and> curAttr t = curAttr s
           \<and> oldy t = oldy s \<and> queue t = queue s"
  using assms unfolding resize_def Let_def by auto

lemma csi_entry_fields [simp]:
  "cols (csi_entry s pre ps) = cols s" "rows (csi_entry s pre ps) = rows s"
  "ybase (csi_entry s pre ps) = ybase s" "x (csi_entry s pre ps) = x s"
  "y (csi_entry s pre ps) = y s" "savedX (csi_entry s pre ps) = savedX s"
  "savedY (csi_entry s pre ps) = savedY s" "cursorState (csi_entry s pre ps) = cursorState s"
  "cursorHidden (csi_entry s pre ps) = cursorHidden s" "queue (csi_entry s pre ps) = queue s"
  "scrollTop (csi_entry s pre ps) = scrollTop s"
  "scrollBottom (csi_entry s pre ps) = scrollBottom s"
  "applicationKeypad (csi_entry s pre ps) = applicationKeypad s"
  "applicationCursor (csi_entry s pre ps) = applicationCursor s"
  "originMode (csi_entry s pre ps) = originMode s"
  "insertMode (csi_entry s pre ps) = insertMode s"
  "wraparoundMode (csi_entry s pre ps) = wraparoundMode s"
  "normal (csi_entry s pre ps) = normal s" "charset (csi_entry s pre ps) = charset s"
  "gcharset (csi_entry s pre ps) = gcharset s" "glevel (csi_entry s pre ps) = glevel s"
  "charsets (csi_entry s pre ps) = charsets s" "defAttr (csi_entry s pre ps) = defAttr s"
  "curAttr (csi_entry s pre ps) = curAttr s" "postfix (csi_entry s pre ps) = postfix s"
  "lines (csi_entry s pre ps) = lines s" "convertEol (csi_entry s pre ps) = convertEol s"
  "termName (csi_entry s pre ps) = termName s" "scrollback (csi_entry s pre ps) = scrollback s"
  "physicalScroll (csi_entry s pre ps) = physicalScroll s"
  "applicationModeCookie (csi_entry s pre ps) = applicationModeCookie s"
  "writeBuffers (csi_entry s pre ps) = writeBuffers s"
  "scrollbackBuffer (csi_entry s pre ps) = scrollbackBuffer s"
  "tabs (csi_entry s pre ps) = tabs s" "sendFocus (csi_entry s pre ps) = sendFocus s"
  "utfMouse (csi_entry s pre ps) = utfMouse s" "urxvtMouse (csi_entry s pre ps) = urxvtMouse s"
  "sgrMouse (csi_entry s pre ps) = sgrMouse s" "vt200Mouse (csi_entry s pre ps) = vt200Mouse s"
  "normalMouse (csi_entry s pre ps) = normalMouse s"
  "x10Mouse (csi_entry s pre ps) = x10Mouse s"
  "mouseEvents (csi_entry s pre ps) = mouseEvents s"
  "savedCols (csi_entry s pre ps) = savedCols s" "title (csi_entry s pre ps) = title s"
  "emitted (csi_entry s pre ps) = emitted s"
  by (simp_all add: csi_entry_def)

lemma csi_entry_set [simp]:
  "ydisp (csi_entry s pre ps) = ybase s" "oldy (csi_entry s pre ps) = y s"
  "prefix (csi_entry s pre ps) = pre" "params (csi_entry s pre ps) = ps"
  "currentParam (csi_entry s pre ps) = Num 0" "state (csi_entry s pre ps) = STATE_NORMAL"
  by (simp_all add: csi_entry_def)

lemma csi_entry0_fields [simp]:
  "cols (csi_entry0 s ps) = cols s" "rows (csi_entry0 s ps) = rows s"
  "ybase (csi_entry0 s ps) = ybase s" "x (csi_entry0 s ps) = x s" "y (csi_entry0 s ps) = y s"
  "savedX (csi_entry0 s ps) = savedX s" "savedY (csi_entry0 s ps) = savedY s"
  "cursorState (csi_entry0 s ps) = cursorState s"
  "cursorHidden (csi_entry0 s ps) = cursorHidden s" "queue (csi_entry0 s ps) = queue s"
  "scrollTop (csi_entry0 s ps) = scrollTop s" "scrollBottom (csi_entry0 s ps) = scrollBottom s"
  "applicationKeypad (csi_entry0 s ps) = applicationKeypad s"
  "applicationCursor (csi_entry0 s ps) = applicationCursor s"
  "originMode (csi_entry0 s ps) = originMode s" "insertMode (csi_entry0 s ps) = insertMode s"
  "wraparoundMode (csi_entry0 s ps) = wraparoundMode s" "normal (csi_entry0 s ps) = normal s"
  "charset (csi_entry0 s ps) = charset s" "gcharset (csi_entry0 s ps) = gcharset s"
  "glevel (csi_entry0 s ps) = glevel s" "charsets (csi_entry0 s ps) = charsets s"
  "defAttr (csi_entry0 s ps) = defAttr s" "curAttr (csi_entry0 s ps) = curAttr s"
  "prefix (csi_entry0 s ps) = prefix s" "postfix (csi_entry0 s ps) = postfix s"
  "lines (csi_entry0 s ps) = lines s" "convertEol (csi_entry0 s ps) = convertEol s"
  "termName (csi_entry0 s ps) = termName s" "scrollback (csi_entry0 s ps) = scrollback s"
  "physicalScroll (csi_entry0 s ps) = physicalScroll s"
  "applicationModeCookie (csi_entry0 s ps) = applicationModeCookie s"
  "writeBuffers (csi_entry0 s ps) = writeBuffers s"
  "scrollbackBuffer (csi_entry0 s ps) = scrollbackBuffer s" "tabs (csi_entry0 s ps) = tabs s"
  "sendFocus (csi_entry0 s ps) = sendFocus s" "utfMouse (csi_entry0 s ps) = utfMouse s"
  "urxvtMouse (csi_entry0 s ps) = urxvtMouse s" "sgrMouse (csi_entry0 s ps) = sgrMouse s"
  "vt200Mouse (csi_entry0 s ps) = vt200Mouse s" "normalMouse (csi_entry0 s ps) = normalMouse s"
  "x10Mouse (csi_entry0 s ps) = x10Mouse s" "mouseEvents (csi_entry0 s ps) = mouseEvents s"
  "savedCols (csi_entry0 s ps) = savedCols s" "title (csi_entry0 s ps) = title s"
  "emitted (csi_entry0 s ps) = emitted s"
  by (simp_all add: csi_entry0_def)

lemma csi_entry0_set [simp]:
  "ydisp (csi_entry0 s ps) = ybase s" "oldy (csi_entry0 s ps) = y s"
  "params (csi_entry0 s ps) = ps"
  "currentParam (csi_entry0 s ps) = Num 0" "state (csi_entry0 s ps) = STATE_NORMAL"
  by (simp_all add: csi_entry0_def)

lemma csi_exit_fields [simp]:
  "cols (csi_exit s) = cols s" "rows (csi_exit s) = rows s" "state (csi_exit s) = state s"
  "ybase (csi_exit s) = ybase s" "ydisp (csi_exit s) = ydisp s" "x (csi_exit s) = x s"
  "y (csi_exit s) = y s" "savedX (csi_exit s) = savedX s" "savedY (csi_exit s) = savedY s"
  "cursorState (csi_exit s) = cursorState s" "cursorHidden (csi_exit s) = cursorHidden s"
  "queue (csi_exit s) = queue s" "scrollTop (csi_exit s) = scrollTop s"
  "scrollBottom (csi_exit s) = scrollBottom s"
  "applicationKeypad (csi_exit s) = applicationKeypad s"
  "applicationCursor (csi_exit s) = applicationCursor s"
  "originMode (csi_exit s) = originMode s" "insertMode (csi_exit s) = insertMode s"
  "wraparoundMode (csi_exit s) = wraparoundMode s" "normal (csi_exit s) = normal s"
  "charset (csi_exit s) = charset s" "gcharset (csi_exit s) = gcharset s"
  "glevel (csi_exit s) = glevel s" "charsets (csi_exit s) = charsets s"
  "defAttr (csi_exit s) = defAttr s" "curAttr (csi_exit s) = curAttr s"
  "params (csi_exit s) = params s" "currentParam (csi_exit s) = currentParam s"
  "lines (csi_exit s) = lines s" "convertEol (csi_exit s) = convertEol s"
  "termName (csi_exit s) = termName s" "scrollback (csi_exit s) = scrollback s"
  "physicalScroll (csi_exit s) = physicalScroll s"
  "applicationModeCookie (csi_exit s) = applicationModeCookie s"
  "writeBuffers (csi_exit s) = writeBuffers s"
  "scrollbackBuffer (csi_exit s) = scrollbackBuffer s" "tabs (csi_exit s) = tabs s"
  "sendFocus (csi_exit s) = sendFocus s" "utfMouse (csi_exit s) = utfMouse s"
  "urxvtMouse (csi_exit s) = urxvtMouse s" "sgrMouse (csi_exit s) = sgrMouse s"
  "vt200Mouse (csi_exit s) = vt200Mouse s" "normalMouse (csi_exit s) = normalMouse s"
  "x10Mouse (csi_exit s) = x10Mouse s" "mouseEvents (csi_exit s) = mouseEvents s"
  "savedCols (csi_exit s) = savedCols s" "title (csi_exit s) = title s"
  "emitted (csi_exit s) = emitted s"
  by (simp_all add: csi_exit_def Let_def)

lemma csi_exit_set [simp]:
  "oldy (csi_exit s) = y s" "prefix (csi_exit s) = []" "postfix (csi_exit s) = []"
  by (simp_all add: csi_exit_def Let_def)

subsection \<open>SGR\<close>

lemma default_triple:
  "js_or (js_or (js_shl (js_sar default_attr 18) 18)
                (js_shl (js_and (js_sar default_attr 9) 0x1ff) 9))
         (js_and default_attr 0x1ff) = default_attr"
  by (simp add: default_attr_value js_or_def js_shl_def js_sar_def js_and_def to_int32_def)

lemma sgr_reaches_le: "sgr_reaches ps i n \<Longrightarrow> i \<le> n"
  by (subst (asm) sgr_reaches.simps) (simp split: if_splits)

lemma sgr_reaches_next: "i < n \<Longrightarrow> sgr_reaches ps i n \<Longrightarrow> sgr_reaches ps (sgr_next ps i) n"
  by (subst (asm) sgr_reaches.simps) (simp split: if_splits)

lemma sgr_next_gt: "i < sgr_next ps i"
  by (simp add: sgr_next_def)

lemma charAttributes_loop_next:
  assumes "i < length ps"
  shows "\<exists>acc'. charAttributes_loop ps d i acc = charAttributes_loop ps d (sgr_next ps i) acc'"
proof -
  obtain a b c where acc: "acc = (a, b, c)" by (cases acc)
  show ?thesis
    unfolding acc
    using assms
    by (subst charAttributes_loop.simps) (auto simp: sgr_next_def Let_def)
qed

lemma charAttributes_loop_trailing_zero:
  assumes "sgr_reaches (ps @ [0]) i (length ps)"
  shows "charAttributes_loop (ps @ [0]) d i acc
         = (js_sar d 18, js_and (js_sar d 9) 0x1ff, js_and d 0x1ff)"
  using assms
proof (induction "length ps - i" arbitrary: i acc rule: less_induct)
  case less
  have le: "i \<le> length ps"
    using less.prems by (rule sgr_reaches_le)
  show ?case
  proof (cases "i = length ps")
    case True
    obtain a b c where acc: "acc = (a, b, c)" by (cases acc)
    show ?thesis
      unfolding acc True
      apply (subst charAttributes_loop.simps)
      apply simp
      apply (subst charAttributes_loop.simps)
      apply simp
      done
  next
    case False
    then have lt: "i < length ps" using le by simp
    then obtain acc' where
      st: "charAttributes_loop (ps @ [0]) d i acc
           = charAttributes_loop (ps @ [0]) d (sgr_next (ps @ [0]) i) acc'"
      using charAttributes_loop_next[of i "ps @ [0]" d acc] by auto
    have r: "sgr_reaches (ps @ [0]) (sgr_next (ps @ [0]) i) (length ps)"
      using sgr_reaches_next[OF lt less.prems] .
    have "length ps - sgr_next (ps @ [0]) i < length ps - i"
      using sgr_next_gt[of i "ps @ [0]"] lt by simp
    from less.hyps[OF this r] st show ?thesis by simp
  qed
qed

text \<open>
  Lists whose extended colours are complete, a lone 38, and operands that are themselves
  38 and 5 are read up to the trailing 0; after an unfinished \<open>38;5\<close> or \<open>48;2;r;g\<close> the 0
  is an operand.
\<close>

lemma sgr_reaches_examples:
  "sgr_reaches ([48, 2, 1, 2, 3] @ [0]) 0 (length [48, 2, 1, 2, 3 :: int])"
  "sgr_reaches ([38] @ [0]) 0 (length [38 :: int])"
  "sgr_reaches ([1, 31] @ [0]) 0 (length [1, 31 :: int])"
  "sgr_reaches ([38, 5, 38, 5] @ [0]) 0 (length [38, 5, 38, 5 :: int])"
  "\<not> sgr_reaches ([38, 5] @ [0]) 0 (length [38, 5 :: int])"
  "\<not> sgr_reaches ([1, 48, 2, 7, 7] @ [0]) 0 (length [1, 48, 2, 7, 7 :: int])"
  by code_simp+

text \<open>
  Claim C6, as amended.  On a terminal whose default attribute is the one that the
  constructor and \<open>_resetVariables\<close> set (the code assigns no other), and for every list
  of SGR parameters in which the loop of \<open>charAttributes\<close> reads the trailing 0 as a
  parameter of its own (\<open>sgr_reaches\<close>: the 0 is not taken as the colour index of a
  \<open>38;5\<close> or \<open>48;5\<close>, nor as a component of a \<open>38;2\<close> or \<open>48;2\<close>, that the parameters before
  it leave unfinished), \<open>charAttributes(params ++ [0])\<close> leaves the current attribute equal
  to the default attribute, whatever the attribute was before.
\<close>

theorem sgr_trailing_zero_resets:
  assumes "sgr_reaches (ps @ [0]) 0 (length ps)" "defAttr s = default_attr"
  shows "curAttr (charAttributes s (ps @ [0])) = defAttr s"
proof (cases "ps = []")
  case True
  then show ?thesis by (simp add: charAttributes_def)
next
  case False
  then have "length (ps @ [0]) \<noteq> 1" by simp
  then show ?thesis
    using charAttributes_loop_trailing_zero[OF assms(1), of "default_attr"]
    by (simp add: charAttributes_def assms(2) default_triple)
qed

text \<open>
  Witness for C6: the parameters \<open>38;5;196\<close>, a complete extended colour, on the terminal
  as constructed.
\<close>

theorem sgr_trailing_zero_resets_witness:
  "sgr_reaches ([38, 5, 196] @ [0]) 0 (length [38, 5, 196 :: int])
   \<and> defAttr (new_Terminal default_options) = default_attr
   \<and> curAttr (charAttributes (new_Terminal default_options) ([38, 5, 196] @ [0]))
       = defAttr (new_Terminal default_options)"
proof -
  have d: "defAttr (new_Terminal default_options) = default_attr"
    by (simp add: fresh_fields)
  have r: "sgr_reaches ([38, 5, 196] @ [0]) 0 (length [38, 5, 196 :: int])"
    by code_simp
  from sgr_trailing_zero_resets[OF r d] r d show ?thesis by simp
qed

text \<open>
  Counterexample to C6 as stated: with the parameters 38;5 the trailing 0 is read as the
  colour index of \<open>38;5;0\<close>, and the attribute, which was the default one, is not the
  default one afterwards.
\<close>

theorem sgr_trailing_zero_counterexample:
  "curAttr (charAttributes (new_Terminal default_options) ([38, 5] @ [0]))
   \<noteq> defAttr (new_Terminal default_options)
   \<and> curAttr (new_Terminal default_options) = defAttr (new_Terminal default_options)"
proof -
  have "charAttributes_loop [38, 5, 0] default_attr 0 (0, 257, 256) = (0, 0, 256)"
    by code_simp
  then show ?thesis
    by (simp add: charAttributes_def fresh_fields default_attr_value js_sar_def js_and_def
                  js_or_def js_shl_def to_int32_def)
qed

subsection \<open>Replies\<close>

lemma run_da:
  assumes "state s = STATE_NORMAL" "prefix s = []"
  shows "map_sum id queue (processWriteData s (ESC # str ''[c''))
         = Inr (queue s @ (if is_term s (str ''xterm'') \<or> is_term s (str ''rxvt-unicode'')
                            \<or> is_term s (str ''screen'') then ESC # str ''[?1;2c''
                           else if is_term s (str ''linux'') then ESC # str ''[?6c'' else []))"
   and "map_sum id queue (processWriteData s (ESC # str ''[0c''))
         = Inr (queue s @ (if is_term s (str ''xterm'') \<or> is_term s (str ''rxvt-unicode'')
                            \<or> is_term s (str ''screen'') then ESC # str ''[?1;2c''
                           else if is_term s (str ''linux'') then ESC # str ''[?6c'' else []))"
   and "map_sum id queue (processWriteData s (ESC # str ''[>c''))
         = Inr (queue s @ (if is_term s (str ''xterm'') then ESC # str ''[>0;276;0c''
                           else if is_term s (str ''rxvt-unicode'') then ESC # str ''[>85;95;0c''
                           else if is_term s (str ''linux'') then str ''0c''
                           else if is_term s (str ''screen'') then ESC # str ''[>83;40003;0c''
                           else []))"
   and "map_sum id queue (processWriteData s (ESC # str ''[>0c''))
         = Inr (queue s @ (if is_term s (str ''xterm'') then ESC # str ''[>0;276;0c''
                           else if is_term s (str ''rxvt-unicode'') then ESC # str ''[>85;95;0c''
                           else if is_term s (str ''linux'') then str ''0c''
                           else if is_term s (str ''screen'') then ESC # str ''[>83;40003;0c''
                           else []))"
  using assms
  by (simp_all add: parser_defs process_loop.simps sendDeviceAttributes_def send_def
                is_term_def num_str_def digits.simps)

lemma run_dsr:
  assumes "state s = STATE_NORMAL" "prefix s = []"
  shows "map_sum id queue (processWriteData s (ESC # str ''[5n''))
         = Inr (queue s @ ESC # str ''[0n'')"
   and "map_sum id queue (processWriteData s (ESC # str ''[6n''))
        = Inr (queue s @ ESC # str ''['' @ num_str (y s + 1) @ str '';''
                 @ num_str (x s + 1) @ str ''R'')"
   and "map_sum id queue (processWriteData s (ESC # str ''[?6n'')) = Inr (queue s)"
  using assms
  by (simp_all add: parser_defs process_loop.simps deviceStatus_def send_def)

text \<open>
  Claim C7, as amended.  When the parser is idle, CSI c with the parameter 0 or without
  one appends ESC [ ? 1 ; 2 c to the replies when the term name starts with xterm,
  rxvt-unicode or screen, and ESC [ ? 6 c when it starts with linux; CSI > c appends
  ESC [ > 0 ; 276 ; 0 c for xterm, ESC [ > 85 ; 95 ; 0 c for rxvt-unicode and
  ESC [ > 83 ; 40003 ; 0 c for screen (and the text 0c for linux).  Any other name, rxvt
  among them, gets no reply.
\<close>

theorem device_attributes:
  assumes "state s = STATE_NORMAL" "prefix s = []"
  shows "map_sum id queue (processWriteData s (ESC # str ''[c''))
         = Inr (queue s @ (if is_term s (str ''xterm'') \<or> is_term s (str ''rxvt-unicode'')
                            \<or> is_term s (str ''screen'') then ESC # str ''[?1;2c''
                           else if is_term s (str ''linux'') then ESC # str ''[?6c'' else []))
       \<and> map_sum id queue (processWriteData s (ESC # str ''[0c''))
         = map_sum id queue (processWriteData s (ESC # str ''[c''))
       \<and> map_sum id queue (processWriteData s (ESC # str ''[>c''))
         = Inr (queue s @ (if is_term s (str ''xterm'') then ESC # str ''[>0;276;0c''
                           else if is_term s (str ''rxvt-unicode'') then ESC # str ''[>85;95;0c''
                           else if is_term s (str ''linux'') then str ''0c''
                           else if is_term s (str ''screen'') then ESC # str ''[>83;40003;0c''
                           else []))
       \<and> map_sum id queue (processWriteData s (ESC # str ''[>0c''))
         = map_sum id queue (processWriteData s (ESC # str ''[>c''))"
  by (simp only: run_da[OF assms] simp_thms)

text \<open>Witness for C7: the terminal as constructed, whose term name is xterm.\<close>

theorem device_attributes_witness:
  "state (new_Terminal default_options) = STATE_NORMAL
   \<and> prefix (new_Terminal default_options) = []
   \<and> map_sum id queue (processWriteData (new_Terminal default_options) (ESC # str ''[c''))
       = Inr (ESC # str ''[?1;2c'')
   \<and> map_sum id queue (processWriteData (new_Terminal default_options) (ESC # str ''[>c''))
       = Inr (ESC # str ''[>0;276;0c'')"
  using device_attributes[of "new_Terminal default_options"]
  by (simp add: fresh_fields is_term_def default_options_def str_def)

text \<open>
  Counterexample to C7 as stated: with the term name rxvt, CSI c is not answered.
\<close>

theorem device_attributes_rxvt_counterexample:
  "map_sum id queue
     (processWriteData (new_Terminal (default_options\<lparr>opt_termName := str ''rxvt''\<rparr>))
        (ESC # str ''[c'')) = Inr []"
  using run_da(1)[of "new_Terminal (default_options\<lparr>opt_termName := str ''rxvt''\<rparr>)"]
  by (simp add: fresh_fields is_term_def str_def)

text \<open>
  Claim C8 at the input where the code departs from it.  On the terminal as constructed,
  CSI ? 6 n leaves the queue of replies empty: the parser calls \<open>deviceStatus\<close> only when
  there is no prefix, so the branch of \<open>deviceStatus\<close> for the prefix ? is never reached.
\<close>

theorem decdsr_is_not_answered:
  "map_sum id queue
     (processWriteData (new_Terminal default_options) (ESC # str ''[?6n'')) = Inr []"
  by (simp add: run_dsr fresh_fields)

lemma dsr_scenario:
  "map_sum id queue (processWriteData (new_Terminal default_options) (ESC # str ''[6n''))
   = Inr (ESC # str ''[1;1R'')"
  using run_dsr(2)[of "new_Terminal default_options"]
  by (simp add: fresh_fields num_str_def digits.simps str_def)

subsection \<open>The cursor\<close>

lemma run_cha:
  assumes "state s = STATE_NORMAL" "prefix s = []"
  shows "map_sum id (\<lambda>t. (x t, cols t)) (processWriteData s (ESC # str ''[100G''))
         = Inr (99, cols s)"
  using assms
  by (simp add: parser_defs process_loop.simps cursorCharAbsolute_def first_param_def
                at_least_1_def)

subsection \<open>The alternate screen\<close>

lemma setMode1_alt:
  assumes "prefix s = str ''?''" "normal s = None" "p = 47 \<or> p = 1047 \<or> p = 1049"
  shows "\<exists>t. setMode1 s p = Inr t
       \<and> curAttr t = default_attr \<and> defAttr t = default_attr
       \<and> charset t = charset s \<and> charsets t = charsets s \<and> glevel t = glevel s
       \<and> normal t = Some \<lparr>saved_lines = lines s, saved_cols = cols s, saved_rows = rows s,
                           saved_ybase = ybase s, saved_ydisp = ydisp s,
                           saved_x = x s, saved_y = y s,
                           saved_scrollTop = scrollTop s,
                           saved_scrollBottom = scrollBottom s, saved_tabs = tabs s\<rparr>
       \<and> x t = 0 \<and> y t = 0 \<and> ybase t = 0 \<and> ydisp t = 0
       \<and> scrollTop t = 0 \<and> scrollBottom t = rows s - 1
       \<and> state t = state s \<and> rows t = rows s \<and> cols t = cols s \<and> queue t = []"
  using assms
  by (auto simp: setMode1_def reset_def resetVariables_def setupStops_def Let_def str_def)

lemma resetMode1_alt:
  assumes "prefix s = str ''?''" "normal s = Some n" "0 \<le> saved_ybase n"
    "p = 47 \<or> p = 1047 \<or> p = 1049"
  shows "\<exists>t. resetMode1 s p = Inr t
       \<and> scrollTop t = 0 \<and> scrollBottom t = max (rows s) 1 - 1 \<and> rows t = max (rows s) 1
       \<and> state t = state s \<and> normal t = None"
proof -
  let ?v = "s\<lparr>lines := saved_lines n, cols := saved_cols n, rows := saved_rows n,
               ybase := saved_ybase n, ydisp := saved_ydisp n,
               x := saved_x n, y := saved_y n,
               scrollTop := saved_scrollTop n,
               scrollBottom := saved_scrollBottom n, tabs := saved_tabs n, normal := None\<rparr>"
  have "\<not> (max (rows s) 1 < rows ?v \<and> max (rows s) 1 + ybase ?v < 0)"
    using assms(3) by (auto simp: max_def)
  from resize_result[OF this, of "cols s"]
  obtain t where t: "resize ?v (cols s) (rows s) = Inr t" "scrollTop t = 0"
    "scrollBottom t = max (rows s) 1 - 1" "rows t = max (rows s) 1" "state t = state s"
    "normal t = None"
    by auto
  have "resetMode1 s p = Inr (showCursor (refresh t 0 (rows t - 1)))"
    using assms(1,2,4) t(1)
    by (auto simp: resetMode1_def Let_def str_def and_then_def)
  with t show ?thesis by simp
qed

lemma run_set_alt:
  assumes "state s = STATE_NORMAL" "prefix s = []"
  shows "processWriteData s (ESC # str ''[?47h'')
         = (case setMode1 (csi_entry s (str ''?'') [Num 47]) 47 of
              Inl e \<Rightarrow> Inl e | Inr t \<Rightarrow> Inr (csi_exit t))"
    and "processWriteData s (ESC # str ''[?1047h'')
         = (case setMode1 (csi_entry s (str ''?'') [Num 1047]) 1047 of
              Inl e \<Rightarrow> Inl e | Inr t \<Rightarrow> Inr (csi_exit t))"
    and "processWriteData s (ESC # str ''[?1049h'')
         = (case setMode1 (csi_entry s (str ''?'') [Num 1049]) 1049 of
              Inl e \<Rightarrow> Inl e | Inr t \<Rightarrow> Inr (csi_exit t))"
  using assms
  by (simp_all add: run_defs split: sum.splits)

lemma run_reset_alt:
  assumes "state s = STATE_NORMAL" "prefix s = []"
  shows "processWriteData s (ESC # str ''[?47l'')
         = (case resetMode1 (csi_entry s (str ''?'') [Num 47]) 47 of
              Inl e \<Rightarrow> Inl e | Inr t \<Rightarrow> Inr (csi_exit t))"
    and "processWriteData s (ESC # str ''[?1047l'')
         = (case resetMode1 (csi_entry s (str ''?'') [Num 1047]) 1047 of
              Inl e \<Rightarrow> Inl e | Inr t \<Rightarrow> Inr (csi_exit t))"
    and "processWriteData s (ESC # str ''[?1049l'')
         = (case resetMode1 (csi_entry s (str ''?'') [Num 1049]) 1049 of
              Inl e \<Rightarrow> Inl e | Inr t \<Rightarrow> Inr (csi_exit t))"
  using assms
  by (simp_all add: run_defs split: sum.splits)

lemma run_region:
  assumes "state s = STATE_NORMAL" "prefix s = []"
  shows "processWriteData s (ESC # str ''[2;5r'')
         = (case setScrollRegion (csi_entry0 s [Num 2, Num 5]) [2, 5] of
              Inl e \<Rightarrow> Inl e | Inr t \<Rightarrow> Inr (csi_exit t))"
  using assms
  by (simp add: run_defs split: sum.splits)

lemma run_alt_enter:
  assumes "state s = STATE_NORMAL" "prefix s = []" "normal s = None"
    "d = ESC # str ''[?47h'' \<or> d = ESC # str ''[?1047h'' \<or> d = ESC # str ''[?1049h''"
  shows "\<exists>t. processWriteData s d = Inr t
       \<and> curAttr t = default_attr \<and> defAttr t = default_attr
       \<and> charset t = charset s \<and> charsets t = charsets s \<and> glevel t = glevel s
       \<and> normal t = Some \<lparr>saved_lines = lines s, saved_cols = cols s, saved_rows = rows s,
                           saved_ybase = ybase s, saved_ydisp = ybase s,
                           saved_x = x s, saved_y = y s,
                           saved_scrollTop = scrollTop s,
                           saved_scrollBottom = scrollBottom s, saved_tabs = tabs s\<rparr>
       \<and> x t = 0 \<and> y t = 0 \<and> ybase t = 0 \<and> ydisp t = 0
       \<and> scrollTop t = 0 \<and> scrollBottom t = rows s - 1
       \<and> state t = STATE_NORMAL \<and> prefix t = [] \<and> rows t = rows s \<and> cols t = cols s"
proof -
  have "\<exists>p. (p = 47 \<or> p = 1047 \<or> p = 1049)
       \<and> processWriteData s d = (case setMode1 (csi_entry s (str ''?'') [Num p]) p of
              Inl e \<Rightarrow> Inl e | Inr t \<Rightarrow> Inr (csi_exit t))"
    using assms(4) run_set_alt[OF assms(1,2)] by auto
  then obtain p where p: "p = 47 \<or> p = 1047 \<or> p = 1049"
    and run: "processWriteData s d = (case setMode1 (csi_entry s (str ''?'') [Num p]) p of
              Inl e \<Rightarrow> Inl e | Inr t \<Rightarrow> Inr (csi_exit t))"
    by blast
  have "prefix (csi_entry s (str ''?'') [Num p]) = str ''?''"
    "normal (csi_entry s (str ''?'') [Num p]) = None"
    using assms(3) by simp_all
  from setMode1_alt[OF this p] obtain t where
    t: "setMode1 (csi_entry s (str ''?'') [Num p]) p = Inr t"
    and f: "curAttr t = default_attr" "defAttr t = default_attr"
       "charset t = charset s" "charsets t = charsets s" "glevel t = glevel s"
       "normal t = Some \<lparr>saved_lines = lines s, saved_cols = cols s, saved_rows = rows s,
                           saved_ybase = ybase s, saved_ydisp = ybase s,
                           saved_x = x s, saved_y = y s,
                           saved_scrollTop = scrollTop s,
                           saved_scrollBottom = scrollBottom s, saved_tabs = tabs s\<rparr>"
       "x t = 0" "y t = 0" "ybase t = 0" "ydisp t = 0"
       "scrollTop t = 0" "scrollBottom t = rows s - 1"
       "state t = STATE_NORMAL" "rows t = rows s" "cols t = cols s"
    by auto
  have "processWriteData s d = Inr (csi_exit t)"
    using run t by simp
  with f show ?thesis by simp
qed

lemma run_alt_leave:
  assumes "state s = STATE_NORMAL" "prefix s = []" "normal s = Some n" "0 \<le> saved_ybase n"
    "d = ESC # str ''[?47l'' \<or> d = ESC # str ''[?1047l'' \<or> d = ESC # str ''[?1049l''"
  shows "\<exists>t. processWriteData s d = Inr t
       \<and> scrollTop t = 0 \<and> scrollBottom t = max (rows s) 1 - 1 \<and> rows t = max (rows s) 1
       \<and> normal t = None"
proof -
  have "\<exists>p. (p = 47 \<or> p = 1047 \<or> p = 1049)
       \<and> processWriteData s d = (case resetMode1 (csi_entry s (str ''?'') [Num p]) p of
              Inl e \<Rightarrow> Inl e | Inr t \<Rightarrow> Inr (csi_exit t))"
    using assms(5) run_reset_alt[OF assms(1,2)] by auto
  then obtain p where p: "p = 47 \<or> p = 1047 \<or> p = 1049"
    and run: "processWriteData s d = (case resetMode1 (csi_entry s (str ''?'') [Num p]) p of
              Inl e \<Rightarrow> Inl e | Inr t \<Rightarrow> Inr (csi_exit t))"
    by blast
  have "prefix (csi_entry s (str ''?'') [Num p]) = str ''?''"
    "normal (csi_entry s (str ''?'') [Num p]) = Some n"
    using assms(3) by simp_all
  from resetMode1_alt[OF this assms(4) p] obtain t where
    t: "resetMode1 (csi_entry s (str ''?'') [Num p]) p = Inr t"
    and f: "scrollTop t = 0" "scrollBottom t = max (rows s) 1 - 1" "rows t = max (rows s) 1"
       "normal t = None"
    by auto
  have "processWriteData s d = Inr (csi_exit t)"
    using run t by simp
  with f show ?thesis by simp
qed

lemma run_region_result:
  assumes "state s = STATE_NORMAL" "prefix s = []"
  shows "\<exists>t. processWriteData s (ESC # str ''[2;5r'') = Inr t
       \<and> scrollTop t = 1 \<and> scrollBottom t = 4 \<and> state t = STATE_NORMAL \<and> prefix t = []
       \<and> normal t = normal s \<and> rows t = rows s \<and> ybase t = ybase s"
  using assms
  by (simp add: run_region setScrollRegion_def param_or_1_def js_get_def)

text \<open>
  Claim C3, as amended.  When the parser is idle and no snapshot is saved, CSI ?47h,
  ?1047h and ?1049h reset the terminal, the current SGR attribute included: afterwards
  \<open>curAttr\<close> is the default attribute.  The active charset, the charset banks and the
  charset level are as before, and the snapshot holds the geometry, the lines, the
  cursor, the scroll region and the tab stops of the moment of entry.
\<close>

theorem alt_screen_entry:
  assumes "state s = STATE_NORMAL" "prefix s = []" "normal s = None"
    "d = ESC # str ''[?47h'' \<or> d = ESC # str ''[?1047h'' \<or> d = ESC # str ''[?1049h''"
  shows "\<exists>t. processWriteData s d = Inr t
       \<and> curAttr t = default_attr \<and> defAttr t = default_attr
       \<and> charset t = charset s \<and> charsets t = charsets s \<and> glevel t = glevel s
       \<and> normal t = Some \<lparr>saved_lines = lines s, saved_cols = cols s, saved_rows = rows s,
                           saved_ybase = ybase s, saved_ydisp = ybase s,
                           saved_x = x s, saved_y = y s,
                           saved_scrollTop = scrollTop s,
                           saved_scrollBottom = scrollBottom s, saved_tabs = tabs s\<rparr>
       \<and> x t = 0 \<and> y t = 0 \<and> scrollTop t = 0 \<and> scrollBottom t = rows s - 1"
  using run_alt_enter[OF assms] by blast

text \<open>Witness for C3: CSI ?1049h on the terminal as constructed.\<close>

theorem alt_screen_entry_witness:
  "state (new_Terminal default_options) = STATE_NORMAL
   \<and> prefix (new_Terminal default_options) = []
   \<and> normal (new_Terminal default_options) = None
   \<and> (\<exists>t. processWriteData (new_Terminal default_options) (ESC # str ''[?1049h'') = Inr t
         \<and> curAttr t = default_attr \<and> glevel t = 0 \<and> charset t = None
         \<and> map_option saved_scrollBottom (normal t) = Some 23
         \<and> map_option saved_cols (normal t) = Some 80)"
proof -
  obtain t where "processWriteData (new_Terminal default_options) (ESC # str ''[?1049h'') = Inr t"
    "curAttr t = default_attr" "glevel t = glevel (new_Terminal default_options)"
    "charset t = charset (new_Terminal default_options)"
    "normal t = Some \<lparr>saved_lines = lines (new_Terminal default_options),
        saved_cols = cols (new_Terminal default_options),
        saved_rows = rows (new_Terminal default_options),
        saved_ybase = ybase (new_Terminal default_options),
        saved_ydisp = ybase (new_Terminal default_options),
        saved_x = x (new_Terminal default_options), saved_y = y (new_Terminal default_options),
        saved_scrollTop = scrollTop (new_Terminal default_options),
        saved_scrollBottom = scrollBottom (new_Terminal default_options),
        saved_tabs = tabs (new_Terminal default_options)\<rparr>"
    using alt_screen_entry[of "new_Terminal default_options" "ESC # str ''[?1049h''"]
    by (auto simp: fresh_fields)
  then show ?thesis
    by (auto simp: fresh_fields)
qed

lemma charAttributes_fields [simp]:
  "cols (charAttributes s ps) = cols s" "rows (charAttributes s ps) = rows s"
  "state (charAttributes s ps) = state s" "refreshStart (charAttributes s ps) = refreshStart s"
  "refreshEnd (charAttributes s ps) = refreshEnd s" "ybase (charAttributes s ps) = ybase s"
  "ydisp (charAttributes s ps) = ydisp s" "x (charAttributes s ps) = x s"
  "y (charAttributes s ps) = y s" "savedX (charAttributes s ps) = savedX s"
  "savedY (charAttributes s ps) = savedY s" "oldy (charAttributes s ps) = oldy s"
  "cursorState (charAttributes s ps) = cursorState s"
  "cursorHidden (charAttributes s ps) = cursorHidden s" "queue (charAttributes s ps) = queue s"
  "scrollTop (charAttributes s ps) = scrollTop s"
  "scrollBottom (charAttributes s ps) = scrollBottom s"
  "applicationKeypad (charAttributes s ps) = applicationKeypad s"
  "applicationCursor (charAttributes s ps) = applicationCursor s"
  "originMode (charAttributes s ps) = originMode s"
  "insertMode (charAttributes s ps) = insertMode s"
  "wraparoundMode (charAttributes s ps) = wraparoundMode s"
  "normal (charAttributes s ps) = normal s" "charset (charAttributes s ps) = charset s"
  "gcharset (charAttributes s ps) = gcharset s" "glevel (charAttributes s ps) = glevel s"
  "charsets (charAttributes s ps) = charsets s" "defAttr (charAttributes s ps) = defAttr s"
  "params (charAttributes s ps) = params s"
  "currentParam (charAttributes s ps) = currentParam s"
  "prefix (charAttributes s ps) = prefix s" "postfix (charAttributes s ps) = postfix s"
  "lines (charAttributes s ps) = lines s" "convertEol (charAttributes s ps) = convertEol s"
  "termName (charAttributes s ps) = termName s"
  "scrollback (charAttributes s ps) = scrollback s"
  "physicalScroll (charAttributes s ps) = physicalScroll s"
  "applicationModeCookie (charAttributes s ps) = applicationModeCookie s"
  "writeBuffers (charAttributes s ps) = writeBuffers s"
  "scrollbackBuffer (charAttributes s ps) = scrollbackBuffer s"
  "tabs (charAttributes s ps) = tabs s" "sendFocus (charAttributes s ps) = sendFocus s"
  "utfMouse (charAttributes s ps) = utfMouse s"
  "urxvtMouse (charAttributes s ps) = urxvtMouse s"
  "sgrMouse (charAttributes s ps) = sgrMouse s"
  "vt200Mouse (charAttributes s ps) = vt200Mouse s"
  "normalMouse (charAttributes s ps) = normalMouse s"
  "x10Mouse (charAttributes s ps) = x10Mouse s"
  "mouseEvents (charAttributes s ps) = mouseEvents s"
  "savedCols (charAttributes s ps) = savedCols s" "title (charAttributes s ps) = title s"
  "emitted (charAttributes s ps) = emitted s"
  by (simp_all add: charAttributes_def split: prod.splits)

lemma run_bold:
  assumes "state s = STATE_NORMAL" "prefix s = []"
  shows "processWriteData s (ESC # str ''[1m'')
         = Inr (csi_exit (charAttributes (csi_entry0 s [Num 1]) [1]))"
  using assms
  by (simp add: run_defs)

lemma bold_on_default:
  assumes "curAttr s = default_attr" "defAttr s = default_attr"
  shows "curAttr (charAttributes s [1]) = 393984"
  using assms
  by (simp add: charAttributes_def charAttributes_loop.simps default_attr_value
                js_sar_def js_and_def js_or_def js_shl_def to_int32_def)

text \<open>
  Counterexample to C3 as stated: on the terminal as constructed, after CSI 1 m the
  current attribute is bold on the default colours and no snapshot is saved; CSI ?47h then
  leaves the current attribute equal to the default attribute, not unchanged.
\<close>

theorem alt_screen_entry_counterexample:
  "map_sum id (\<lambda>t. (curAttr t, normal t))
     (process_chunks (new_Terminal default_options) [ESC # str ''[1m'']) = Inr (393984, None)
   \<and> map_sum id curAttr
     (process_chunks (new_Terminal default_options) [ESC # str ''[1m'', ESC # str ''[?47h''])
       = Inr 131840"
proof -
  let ?T = "new_Terminal default_options"
  let ?t1 = "csi_exit (charAttributes (csi_entry0 ?T [Num 1]) [1])"
  have r1: "processWriteData ?T (ESC # str ''[1m'') = Inr ?t1"
    by (rule run_bold) (simp_all add: fresh_fields)
  have c1: "curAttr ?t1 = 393984"
    by (simp add: bold_on_default fresh_fields)
  have f1: "state ?t1 = STATE_NORMAL" "prefix ?t1 = []" "normal ?t1 = None"
    by (simp_all add: fresh_fields)
  from run_alt_enter[OF f1, of "ESC # str ''[?47h''"] obtain t2 where
    r2: "processWriteData ?t1 (ESC # str ''[?47h'') = Inr t2" and c2: "curAttr t2 = default_attr"
    by auto
  show ?thesis
    using c1 c2 f1 by (simp add: r1 r2 and_then_def default_attr_value)
qed

text \<open>
  Claim C4 at an input where the code departs from it.  On the terminal as constructed,
  CSI 2;5 r sets the scroll region to the rows 1 to 4; entering the alternate screen with
  CSI ?47h and leaving it with CSI ?47l ends with the region 0 to 23, the full screen:
  \<open>resetMode\<close> restores \<open>scrollTop\<close> and \<open>scrollBottom\<close> from the snapshot and then calls
  \<open>resize\<close>, which sets them to 0 and \<open>rows - 1\<close>.
\<close>

theorem alt_screen_exit_resets_scroll_region:
  "map_sum id (\<lambda>t. (scrollTop t, scrollBottom t))
     (process_chunks (new_Terminal default_options) [ESC # str ''[2;5r'']) = Inr (1, 4)
   \<and> map_sum id (\<lambda>t. (scrollTop t, scrollBottom t))
     (process_chunks (new_Terminal default_options)
        [ESC # str ''[2;5r'', ESC # str ''[?47h'', ESC # str ''[?47l'']) = Inr (0, 23)"
proof -
  let ?T = "new_Terminal default_options"
  from run_region_result[of ?T] obtain t1 where
    r1: "processWriteData ?T (ESC # str ''[2;5r'') = Inr t1"
    and f1: "scrollTop t1 = 1" "scrollBottom t1 = 4" "state t1 = STATE_NORMAL" "prefix t1 = []"
      "normal t1 = None" "rows t1 = 24" "ybase t1 = 0"
    by (auto simp: fresh_fields)
  from run_alt_enter[OF f1(3,4,5), of "ESC # str ''[?47h''"] obtain t2 where
    r2: "processWriteData t1 (ESC # str ''[?47h'') = Inr t2"
    and f2: "state t2 = STATE_NORMAL" "prefix t2 = []" "rows t2 = 24"
      "normal t2 = Some \<lparr>saved_lines = lines t1, saved_cols = cols t1, saved_rows = rows t1,
                           saved_ybase = ybase t1, saved_ydisp = ybase t1,
                           saved_x = x t1, saved_y = y t1,
                           saved_scrollTop = scrollTop t1,
                           saved_scrollBottom = scrollBottom t1, saved_tabs = tabs t1\<rparr>"
    using f1 by auto
  from run_alt_leave[OF f2(1,2,4), of "ESC # str ''[?47l''"] obtain t3 where
    r3: "processWriteData t2 (ESC # str ''[?47l'') = Inr t3"
    and f3: "scrollTop t3 = 0" "scrollBottom t3 = 23"
    using f1 f2 by auto
  show ?thesis
    using f1 f3 by (simp add: r1 r2 r3 and_then_def)
qed

subsection \<open>Rows\<close>

lemma length_row_set:
  "length (row_set line i v) = (if i < 0 then length line else max (length line) (nat i + 1))"
  by (auto simp: row_set_def)

lemma repeat_loop_snd: "snd (repeat_loop n c (line, v)) = v + int n"
  by (induction n arbitrary: line v) simp_all

lemma repeat_loop_length:
  "0 \<le> v \<Longrightarrow> 0 < n \<Longrightarrow>
   length (fst (repeat_loop n c (line, v))) = max (length line) (nat v + n)"
proof (induction n arbitrary: line v)
  case 0
  then show ?case by simp
next
  case (Suc n)
  show ?case
  proof (cases "n = 0")
    case True
    with Suc.prems show ?thesis by (simp add: length_row_set)
  next
    case False
    with Suc.prems Suc.IH[of "v + 1" "row_set line v c"] show ?thesis
      by (auto simp: length_row_set nat_add_distrib max_def)
  qed
qed

lemma getRow_present:
  "r < int (length (lines s)) \<Longrightarrow> getRow s r = s"
  by (simp add: getRow_def)

lemma repeatPrecedingCharacter_result:
  assumes "0 \<le> ybase s + y s" "ybase s + y s < int (length (lines s))" "0 \<le> x s" "0 < n"
  shows "\<exists>t. repeatPrecedingCharacter s [n] = Inr t \<and> x t = x s + n \<and> cols t = cols s
       \<and> length (lines t ! nat (ybase s + y s))
           = max (length (lines s ! nat (ybase s + y s))) (nat (x s) + nat n)"
proof -
  let ?r = "ybase s + y s"
  let ?line = "lines s ! nat ?r"
  let ?c = "case row_get ?line (x s - 1) of Some c \<Rightarrow> c | None \<Rightarrow> (defAttr s, SPACE)"
  obtain line1 v where rl: "repeat_loop (nat n) ?c (?line, x s) = (line1, v)"
    by (cases "repeat_loop (nat n) ?c (?line, x s)")
  have v: "v = x s + n"
    using repeat_loop_snd[of "nat n" ?c ?line "x s"] rl assms(4) by simp
  have l: "length line1 = max (length ?line) (nat (x s) + nat n)"
    using repeat_loop_length[of "x s" "nat n" ?c ?line] rl assms(3,4) by simp
  have g: "js_get (lines s) ?r = Some ?line"
    using assms(1,2) by (simp add: js_get_def)
  have "nat ?r < length (lines s)"
    using assms(1,2) by simp
  then show ?thesis
    using assms(4) g rl v l
    unfolding repeatPrecedingCharacter_def param_or_1_def Let_def getRow_present[OF assms(2)]
    by simp
qed

lemma run_rep:
  assumes "state s = STATE_NORMAL" "prefix s = []"
  shows "processWriteData s (ESC # str ''[81b'')
         = (case repeatPrecedingCharacter (csi_entry0 s [Num 81]) [81] of
              Inl e \<Rightarrow> Inl e | Inr t \<Rightarrow> Inr (csi_exit t))"
  using assms
  by (simp add: run_defs split: sum.splits)

text \<open>
  Claim C1 at an input where the code departs from it.  On the terminal as constructed,
  with 80 columns, CSI 81 b (REP) leaves row 0 with 81 cells: \<open>repeatPrecedingCharacter\<close>
  writes \<open>line[this.x]\<close> and advances \<open>x\<close> as many times as the parameter says, with no test
  against \<open>cols\<close>.
\<close>

theorem rep_makes_a_row_longer_than_cols:
  "map_sum id (\<lambda>t. (cols t, length (lines t ! 0)))
     (process_chunks (new_Terminal default_options) [ESC # str ''[81b'']) = Inr (80, 81)"
proof -
  let ?T = "new_Terminal default_options"
  let ?u = "csi_entry0 ?T [Num 81]"
  have l: "lines ?T = replicate 24 (replicate 80 (Some (default_attr, SPACE)))"
    by (rule fresh_lines) (simp add: default_options_def)
  have "\<exists>t. repeatPrecedingCharacter ?u [81] = Inr t \<and> x t = x ?u + 81 \<and> cols t = cols ?u
       \<and> length (lines t ! nat (ybase ?u + y ?u))
           = max (length (lines ?u ! nat (ybase ?u + y ?u))) (nat (x ?u) + nat 81)"
    by (rule repeatPrecedingCharacter_result) (simp_all add: fresh_fields l)
  then obtain t where t: "repeatPrecedingCharacter ?u [81] = Inr t" "cols t = 80"
    "length (lines t ! 0) = 81"
    by (auto simp: fresh_fields l)
  have "processWriteData ?T (ESC # str ''[81b'') = Inr (csi_exit t)"
    using run_rep[of ?T] t(1) by (simp add: fresh_fields)
  then show ?thesis
    using t by (simp add: and_then_def)
qed

text \<open>
  Claim C2 at two inputs where the code departs from it.  On the terminal as
  constructed, with 80 columns, CSI 100 G puts the cursor in column 99
  (\<open>cursorCharAbsolute\<close> does not clamp the column, as \<open>charPosAbsolute\<close> does), and
  CSI 81 b (REP) puts it in column 81 (\<open>repeatPrecedingCharacter\<close> advances \<open>x\<close> without
  a test against \<open>cols\<close>).
\<close>

theorem cursor_leaves_the_columns:
  "map_sum id (\<lambda>t. (x t, cols t))
     (processWriteData (new_Terminal default_options) (ESC # str ''[100G'')) = Inr (99, 80)
   \<and> map_sum id (\<lambda>t. (x t, cols t))
     (processWriteData (new_Terminal default_options) (ESC # str ''[81b'')) = Inr (81, 80)"
proof -
  let ?T = "new_Terminal default_options"
  let ?u = "csi_entry0 ?T [Num 81]"
  have l: "lines ?T = replicate 24 (replicate 80 (Some (default_attr, SPACE)))"
    by (rule fresh_lines) (simp add: default_options_def)
  have "\<exists>t. repeatPrecedingCharacter ?u [81] = Inr t \<and> x t = x ?u + 81 \<and> cols t = cols ?u
       \<and> length (lines t ! nat (ybase ?u + y ?u))
           = max (length (lines ?u ! nat (ybase ?u + y ?u))) (nat (x ?u) + nat 81)"
    by (rule repeatPrecedingCharacter_result) (simp_all add: fresh_fields l)
  then obtain t where t: "repeatPrecedingCharacter ?u [81] = Inr t" "cols t = 80" "x t = 81"
    by (auto simp: fresh_fields l)
  have "processWriteData ?T (ESC # str ''[81b'') = Inr (csi_exit t)"
    using run_rep[of ?T] t(1) by (simp add: fresh_fields)
  then show ?thesis
    using t by (simp add: run_cha fresh_fields)
qed





subsection \<open>Printable characters at the margin\<close>

lemma scroll_advance_fields [simp]:
  "cols (scroll_advance s) = cols s" "rows (scroll_advance s) = rows s"
  "state (scroll_advance s) = state s" "refreshStart (scroll_advance s) = refreshStart s"
  "refreshEnd (scroll_advance s) = refreshEnd s" "ydisp (scroll_advance s) = ydisp s"
  "x (scroll_advance s) = x s" "y (scroll_advance s) = y s"
  "savedX (scroll_advance s) = savedX s" "savedY (scroll_advance s) = savedY s"
  "oldy (scroll_advance s) = oldy s" "cursorState (scroll_advance s) = cursorState s"
  "cursorHidden (scroll_advance s) = cursorHidden s" "queue (scroll_advance s) = queue s"
  "scrollTop (scroll_advance s) = scrollTop s"
  "scrollBottom (scroll_advance s) = scrollBottom s"
  "applicationKeypad (scroll_advance s) = applicationKeypad s"
  "applicationCursor (scroll_advance s) = applicationCursor s"
  "originMode (scroll_advance s) = originMode s" "insertMode (scroll_advance s) = insertMode s"
  "wraparoundMode (scroll_advance s) = wraparoundMode s" "normal (scroll_advance s) = normal s"
  "charset (scroll_advance s) = charset s" "gcharset (scroll_advance s) = gcharset s"
  "glevel (scroll_advance s) = glevel s" "charsets (scroll_advance s) = charsets s"
  "defAttr (scroll_advance s) = defAttr s" "curAttr (scroll_advance s) = curAttr s"
  "params (scroll_advance s) = params s" "currentParam (scroll_advance s) = currentParam s"
  "prefix (scroll_advance s) = prefix s" "postfix (scroll_advance s) = postfix s"
  "convertEol (scroll_advance s) = convertEol s" "termName (scroll_advance s) = termName s"
  "scrollback (scroll_advance s) = scrollback s"
  "physicalScroll (scroll_advance s) = physicalScroll s"
  "applicationModeCookie (scroll_advance s) = applicationModeCookie s"
  "writeBuffers (scroll_advance s) = writeBuffers s" "tabs (scroll_advance s) = tabs s"
  "sendFocus (scroll_advance s) = sendFocus s" "utfMouse (scroll_advance s) = utfMouse s"
  "urxvtMouse (scroll_advance s) = urxvtMouse s" "sgrMouse (scroll_advance s) = sgrMouse s"
  "vt200Mouse (scroll_advance s) = vt200Mouse s"
  "normalMouse (scroll_advance s) = normalMouse s" "x10Mouse (scroll_advance s) = x10Mouse s"
  "mouseEvents (scroll_advance s) = mouseEvents s" "savedCols (scroll_advance s) = savedCols s"
  "title (scroll_advance s) = title s" "emitted (scroll_advance s) = emitted s"
  by (simp_all add: scroll_advance_def Let_def)

lemma scroll_region_top_fields [simp]:
  "cols (scroll_region_top s) = cols s" "rows (scroll_region_top s) = rows s"
  "state (scroll_region_top s) = state s" "refreshStart (scroll_region_top s) = refreshStart s"
  "refreshEnd (scroll_region_top s) = refreshEnd s" "x (scroll_region_top s) = x s"
  "y (scroll_region_top s) = y s" "savedX (scroll_region_top s) = savedX s"
  "savedY (scroll_region_top s) = savedY s" "oldy (scroll_region_top s) = oldy s"
  "cursorState (scroll_region_top s) = cursorState s"
  "cursorHidden (scroll_region_top s) = cursorHidden s" "queue (scroll_region_top s) = queue s"
  "scrollTop (scroll_region_top s) = scrollTop s"
  "scrollBottom (scroll_region_top s) = scrollBottom s"
  "applicationKeypad (scroll_region_top s) = applicationKeypad s"
  "applicationCursor (scroll_region_top s) = applicationCursor s"
  "originMode (scroll_region_top s) = originMode s"
  "insertMode (scroll_region_top s) = insertMode s"
  "wraparoundMode (scroll_region_top s) = wraparoundMode s"
  "normal (scroll_region_top s) = normal s" "charset (scroll_region_top s) = charset s"
  "gcharset (scroll_region_top s) = gcharset s" "glevel (scroll_region_top s) = glevel s"
  "charsets (scroll_region_top s) = charsets s" "defAttr (scroll_region_top s) = defAttr s"
  "curAttr (scroll_region_top s) = curAttr s" "params (scroll_region_top s) = params s"
  "currentParam (scroll_region_top s) = currentParam s"
  "prefix (scroll_region_top s) = prefix s" "postfix (scroll_region_top s) = postfix s"
  "convertEol (scroll_region_top s) = convertEol s"
  "termName (scroll_region_top s) = termName s"
  "scrollback (scroll_region_top s) = scrollback s"
  "physicalScroll (scroll_region_top s) = physicalScroll s"
  "applicationModeCookie (scroll_region_top s) = applicationModeCookie s"
  "writeBuffers (scroll_region_top s) = writeBuffers s"
  "scrollbackBuffer (scroll_region_top s) = scrollbackBuffer s"
  "tabs (scroll_region_top s) = tabs s" "sendFocus (scroll_region_top s) = sendFocus s"
  "utfMouse (scroll_region_top s) = utfMouse s"
  "urxvtMouse (scroll_region_top s) = urxvtMouse s"
  "sgrMouse (scroll_region_top s) = sgrMouse s"
  "vt200Mouse (scroll_region_top s) = vt200Mouse s"
  "normalMouse (scroll_region_top s) = normalMouse s"
  "x10Mouse (scroll_region_top s) = x10Mouse s"
  "mouseEvents (scroll_region_top s) = mouseEvents s"
  "savedCols (scroll_region_top s) = savedCols s" "title (scroll_region_top s) = title s"
  "emitted (scroll_region_top s) = emitted s"
  by (simp_all add: scroll_region_top_def Let_def)



lemma blankLine_wm [simp]: "blankLine (s\<lparr>wraparoundMode := w\<rparr>) b = blankLine s b"
  by (simp add: blankLine_def eraseAttr_def)








lemma insert_blank_wm [simp]:
  "insert_blank (s\<lparr>wraparoundMode := w\<rparr>) c line = insert_blank s c line"
  by (simp add: insert_blank_def Let_def)

lemma map_charset_wm [simp]: "map_charset (s\<lparr>wraparoundMode := w\<rparr>) c = map_charset s c"
  by (simp add: map_charset_def)


lemma process_normal_printable: "SPACE \<le> c \<Longrightarrow> process_normal s c = print_char s c"
  by (simp add: process_normal_def SPACE_def ESC_def)




lemma change_row_ok:
  assumes "0 \<le> r"
  shows "change_row s r f
         = Inr ((getRow s r)\<lparr>lines := (lines (getRow s r))[nat r := f (lines (getRow s r) ! nat r)]\<rparr>)"
proof -
  have "r < int (length (lines (getRow s r)))"
    by (simp add: getRow_def)
  then show ?thesis
    using assms by (simp add: change_row_def Let_def js_get_def)
qed

lemma getRow_fields [simp]:
  "x (getRow s r) = x s" "y (getRow s r) = y s" "ybase (getRow s r) = ybase s"
  "cols (getRow s r) = cols s" "curAttr (getRow s r) = curAttr s"
  by (simp_all add: getRow_def)
















subsection \<open>Data split across two chunks\<close>

lemma run_osc_unterminated:
  assumes "state s = STATE_NORMAL" "prefix s = []"
  shows "\<exists>t. processWriteData s (ESC # str ''[G'' @ ESC # str '']'' @ [ESC]) = Inr t
           \<and> state t = STATE_NORMAL \<and> x t = 0 \<and> y t = y s \<and> ybase t = ybase s
           \<and> cols t = cols s \<and> charset t = charset s"
  using assms
  by (simp add: parser_defs process_loop.simps cursorCharAbsolute_def first_param_def
                at_least_1_def processDataOSC_def js_get_def BEL_def)

lemma run_osc_terminated:
  assumes "state s = STATE_NORMAL" "prefix s = []"
  shows "\<exists>t. processWriteData s (ESC # str ''[G'' @ ESC # str '']'' @ [ESC, 92]) = Inr t
           \<and> state t = STATE_NORMAL \<and> x t = 0"
  using assms
  by (simp add: parser_defs process_loop.simps cursorCharAbsolute_def first_param_def
                at_least_1_def processDataOSC_def js_get_def BEL_def)

lemma print_char_inside:
  assumes "x s < cols s" "0 \<le> y s + ybase s" "\<not> isWide (map_charset s c)"
  shows "\<exists>t. print_char s c = Inr t \<and> x t = x s + 1"
proof -
  have w: "wrap_at_margin s = s"
    using assms(1) by (simp add: wrap_at_margin_def)
  show ?thesis
    using assms(3)
    by (simp add: print_char_def Let_def w change_row_ok[OF assms(2)] and_then_def)
qed

lemma run_printable:
  assumes "state s = STATE_NORMAL" "SPACE \<le> c" "x s < cols s" "0 \<le> y s + ybase s"
    "\<not> isWide (map_charset s c)"
  shows "\<exists>t. processWriteData s [c] = Inr t \<and> x t = x s + 1"
proof -
  have m: "map_charset (write_prologue s) c = map_charset s c"
    by (simp add: map_charset_def)
  from print_char_inside[of "write_prologue s" c] assms obtain t where
    t: "print_char (write_prologue s) c = Inr t" "x t = x s + 1"
    by (auto simp: m)
  have "process_char (write_prologue s) [c] 0 = Inr (t, 0)"
    using t(1) assms(1,2)
    by (simp add: process_char_def process_normal_printable and_then_def)
  then show ?thesis
    using t(2)
    by (simp add: processWriteData_def process_loop_unroll and_then_def)
qed

text \<open>
  Claim C5 at an input where the code departs from it.  The data is \<open>ESC [ G\<close> (a CSI
  sequence), \<open>ESC ]\<close> (the start of an OSC string) and the string terminator \<open>ESC \\<close>.
  Written in one piece to the terminal as constructed, it leaves the cursor in column 0:
  the handler of the OSC state ends the string at \<open>ESC\<close> and skips the backslash with
  \<open>i++\<close>.  Written in two pieces, the second one the backslash alone, the \<open>i++\<close> at the
  end of the first piece skips nothing, and the backslash is printed: the cursor ends in
  column 1.
\<close>

theorem split_string_terminator_prints_backslash:
  "map_sum id x (process_chunks (new_Terminal default_options)
                   [ESC # str ''[G'' @ ESC # str '']'' @ [ESC], [92]]) = Inr 1
   \<and> map_sum id x (process_chunks (new_Terminal default_options)
                   [(ESC # str ''[G'' @ ESC # str '']'' @ [ESC]) @ [92]]) = Inr 0"
proof -
  let ?T = "new_Terminal default_options"
  have f: "state ?T = STATE_NORMAL" "prefix ?T = []"
    by (simp_all add: fresh_fields)
  from run_osc_unterminated[OF f] obtain t1 where
    t1: "processWriteData ?T (ESC # str ''[G'' @ ESC # str '']'' @ [ESC]) = Inr t1"
        "state t1 = STATE_NORMAL" "x t1 = 0" "y t1 = y ?T" "ybase t1 = ybase ?T"
        "cols t1 = cols ?T" "charset t1 = charset ?T"
    by blast
  have "\<exists>t. processWriteData t1 [92] = Inr t \<and> x t = x t1 + 1"
    by (rule run_printable)
       (simp_all add: t1 fresh_fields SPACE_def map_charset_def isWide_def)
  then obtain t2 where t2: "processWriteData t1 [92] = Inr t2" "x t2 = 1"
    by (auto simp: t1)
  from run_osc_terminated[OF f] obtain t3 where
    t3: "processWriteData ?T (ESC # str ''[G'' @ ESC # str '']'' @ [ESC, 92]) = Inr t3" "x t3 = 0"
    by blast
  have a: "process_chunks ?T [ESC # str ''[G'' @ ESC # str '']'' @ [ESC], [92]] = Inr t2"
    by (simp add: t1(1) t2(1) and_then_def)
  have b: "process_chunks ?T [(ESC # str ''[G'' @ ESC # str '']'' @ [ESC]) @ [92]] = Inr t3"
    using t3(1) by (simp add: and_then_def)
  show ?thesis
    by (simp only: a b) (simp add: t2 t3)
qed

end
